theory Spec2Isabelle
  imports Main
begin

section \<open>JavaScript values\<close>

text \<open>
  The adapters read the parsed JSON of an upstream reply by property access and coerce
  what they find with \<^verbatim>\<open>String(...)\<close>, \<^verbatim>\<open>Number(...)\<close>, \<^verbatim>\<open>Boolean(...)\<close> and
  \<^verbatim>\<open>||\<close>. The values are those \<^verbatim>\<open>JSON.parse\<close> produces, plus \<^verbatim>\<open>undefined\<close> (what
  reading a missing property gives) and \<^verbatim>\<open>NaN\<close> (what \<^verbatim>\<open>Number\<close> gives on a value that
  is no number). Numbers are modelled as unbounded integers: counts, sizes, identifiers
  and page indices. An object is the list of its own properties; a property named twice
  counts once, at its first occurrence.
\<close>

datatype jsval =
    JUndefined
  | JNull
  | JBool bool
  | JNum int
  | JNaN
  | JStr string
  | JArr "jsval list"
  | JObj "(string \<times> jsval) list"

text \<open>What a \<^verbatim>\<open>throw\<close> carries: \<^verbatim>\<open>new Error(message)\<close>, or the \<^verbatim>\<open>TypeError\<close> the
  engine raises on a property read of \<^verbatim>\<open>null\<close>/\<^verbatim>\<open>undefined\<close> or a call of something that
  is no function.\<close>

datatype error = Error string | TypeError

section \<open>The unified data model (types.ts)\<close>

datatype UnifiedClassification = PLUGIN | DATA | ART | SAVE | MODPACK

datatype SortBy = SortDownloads | SortRating | SortUpdated | SortCreated | SortName

datatype SortOrder = Asc | Desc

record UnifiedAuthor =
  ua_id :: string
  ua_username :: string
  ua_displayName :: "string option"
  ua_avatarUrl :: "string option"

record UnifiedVersion =
  uv_id :: string
  uv_version :: string
  uv_changelog :: "string option"
  uv_downloads :: int
  uv_gameVersion :: string
  uv_releaseDate :: string
  uv_fileSize :: int
  uv_fileName :: string

record UnifiedCategory =
  uc_id :: string
  uc_name :: string
  uc_slug :: string
  uc_iconUrl :: "string option"

record UnifiedTag =
  ut_id :: string
  ut_name :: string
  ut_slug :: string

datatype DependencyType = DepRequired | DepOptional | DepIncompatible | DepEmbedded

record UnifiedDependency =
  ud_projectId :: string
  ud_projectName :: string
  ud_versionId :: "string option"
  ud_required :: bool
  ud_type :: DependencyType

record UnifiedProject =
  up_id :: string
  up_slug :: string
  up_providerId :: string
  up_title :: string
  up_description :: string
  up_shortDescription :: "string option"
  up_classification :: UnifiedClassification
  up_author :: UnifiedAuthor
  up_categories :: "UnifiedCategory list"
  up_tags :: "UnifiedTag list option"
  up_downloads :: int
  up_rating :: "int option"
  up_ratingCount :: "int option"
  up_followers :: "int option"
  up_iconUrl :: "string option"
  up_bannerUrl :: "string option"
  up_galleryImages :: "string list option"
  up_versions :: "UnifiedVersion list"
  up_latestVersion :: "UnifiedVersion option"
  up_gameVersions :: "string list"
  up_createdAt :: string
  up_updatedAt :: string
  up_featured :: "bool option"
  up_raw :: "jsval option"

record UnifiedSearchParams =
  sp_query :: "string option"
  sp_classification :: "UnifiedClassification option"
  sp_categories :: "string list option"
  sp_tags :: "string list option"
  sp_gameVersion :: "string option"
  sp_page :: "int option"
  sp_pageSize :: "int option"
  sp_sortBy :: "SortBy option"
  sp_sortOrder :: "SortOrder option"

record UnifiedSearchResponse =
  sr_projects :: "UnifiedProject list"
  sr_total :: int
  sr_page :: int
  sr_pageSize :: int
  sr_hasMore :: bool
  sr_providerId :: string

record MultiProviderSearchResponse =
  results :: "UnifiedSearchResponse list"
  totalAcrossProviders :: int

record UnifiedModMetadata =
  md_providerId :: string
  md_projectId :: string
  md_projectTitle :: string
  md_projectIconUrl :: "string option"
  md_versionId :: string
  md_versionName :: string
  md_classification :: UnifiedClassification
  md_fileSize :: "int option"
  md_fileHash :: "string option"

record ProviderInfo =
  pi_id :: string
  pi_displayName :: string
  pi_iconUrl :: "string option"
  pi_requiresApiKey :: bool
  pi_isConfigured :: bool

text \<open>\<^verbatim>\<open>a || d\<close> on an optional number: \<^verbatim>\<open>undefined\<close> and \<^verbatim>\<open>0\<close> are falsy.\<close>

definition num_or :: "int option \<Rightarrow> int \<Rightarrow> int" where
  "num_or a d = (case a of None \<Rightarrow> d | Some n \<Rightarrow> if n = 0 then d else n)"

text \<open>\<^verbatim>\<open>a ?? d\<close> on an optional number: only \<^verbatim>\<open>undefined\<close> gives the default.\<close>

definition num_nullish :: "int option \<Rightarrow> int \<Rightarrow> int" where
  "num_nullish a d = (case a of None \<Rightarrow> d | Some n \<Rightarrow> n)"

section \<open>The adapter contract (IModProvider.ts)\<close>

text \<open>
  The registry and the service see an adapter through the interface only. An adapter is
  modelled by the value of its read-only fields, the answer of \<^verbatim>\<open>isConfigured()\<close>, and
  for each asynchronous method the outcome of the promise it returns: \<open>Inl e\<close> when it
  rejects with \<open>e\<close>, \<open>Inr v\<close> when it resolves to \<open>v\<close>. The optional members are \<open>None\<close>
  when the adapter does not have them. A download stream is the bytes it delivers.
\<close>

type_synonym stream = string

record IModProvider =
  provider_id :: string
  displayName :: string
  iconUrl :: "string option"
  requiresApiKey :: bool
  isConfigured :: bool
  searchProjects :: "UnifiedSearchParams \<Rightarrow> error + UnifiedSearchResponse"
  getProject :: "string \<Rightarrow> error + UnifiedProject"
  getProjectBySlug :: "(string \<Rightarrow> error + UnifiedProject) option"
  getCategories :: "error + UnifiedCategory list"
  getTags :: "(error + UnifiedTag list) option"
  getVersionDependencies :: "string \<Rightarrow> string \<Rightarrow> error + UnifiedDependency list"
  downloadVersion :: "string \<Rightarrow> string \<Rightarrow> error + stream"

text \<open>The asynchronous adapter methods the registry and the service can invoke, recorded
  in the order they are invoked.\<close>

datatype adapter_call =
    CallSearchProjects string UnifiedSearchParams
  | CallGetProject string string
  | CallGetProjectBySlug string string
  | CallGetCategories string
  | CallGetTags string
  | CallGetVersionDependencies string string string
  | CallDownloadVersion string string string

section \<open>ModProviderRegistry\<close>

text \<open>The registry's \<^verbatim>\<open>Map<string, IModProvider>\<close>: a JavaScript map iterates in insertion
  order, and \<^verbatim>\<open>set\<close> on a key that is present replaces the value where it stands.\<close>

type_synonym registry = "(string \<times> IModProvider) list"

fun map_set :: "string \<Rightarrow> 'v \<Rightarrow> (string \<times> 'v) list \<Rightarrow> (string \<times> 'v) list" where
  "map_set k v [] = [(k, v)]"
| "map_set k v ((k', v') # m) = (if k' = k then (k, v) # m else (k', v') # map_set k v m)"

definition registerProvider :: "IModProvider \<Rightarrow> registry \<Rightarrow> registry" where
  "registerProvider provider providers = map_set (provider_id provider) provider providers"

definition unregisterProvider :: "string \<Rightarrow> registry \<Rightarrow> registry" where
  "unregisterProvider providerId providers = filter (\<lambda>(k, p). k \<noteq> providerId) providers"

definition getProvider :: "registry \<Rightarrow> string \<Rightarrow> IModProvider option" where
  "getProvider providers providerId = map_of providers providerId"

definition getAllProviders :: "registry \<Rightarrow> IModProvider list" where
  "getAllProviders providers = map snd providers"

definition getConfiguredProviders :: "registry \<Rightarrow> IModProvider list" where
  "getConfiguredProviders providers = filter isConfigured (getAllProviders providers)"

definition getProviderInfo :: "registry \<Rightarrow> ProviderInfo list" where
  "getProviderInfo providers =
     map (\<lambda>p. \<lparr> pi_id = provider_id p, pi_displayName = displayName p, pi_iconUrl = iconUrl p,
               pi_requiresApiKey = requiresApiKey p, pi_isConfigured = isConfigured p \<rparr>)
       (getAllProviders providers)"

definition hasProvider :: "registry \<Rightarrow> string \<Rightarrow> bool" where
  "hasProvider providers providerId = (map_of providers providerId \<noteq> None)"

text \<open>The body of the \<^verbatim>\<open>map(async (provider) => ...)\<close> callback of \<^verbatim>\<open>searchAll\<close>: the
  adapter's result, or the empty response that stands in for a rejected search.\<close>

definition searchOne :: "UnifiedSearchParams \<Rightarrow> IModProvider \<Rightarrow> UnifiedSearchResponse" where
  "searchOne params provider =
     (case searchProjects provider params of
        Inr result \<Rightarrow> result
      | Inl e \<Rightarrow>
          \<lparr> sr_projects = [],
            sr_total = 0,
            sr_page = num_or (sp_page params) 1,
            sr_pageSize = num_or (sp_pageSize params) 50,
            sr_hasMore = False,
            sr_providerId = provider_id provider \<rparr>)"

text \<open>\<^verbatim>\<open>searchAll\<close> returns the adapter calls it made together with its result. Each
  callback catches its own rejection, so \<^verbatim>\<open>Promise.all\<close> never rejects and delivers the
  results in the order of \<^verbatim>\<open>configuredProviders\<close>; \<^verbatim>\<open>reduce\<close> adds the totals from the
  left, starting at 0.\<close>

definition searchAll ::
  "registry \<Rightarrow> UnifiedSearchParams \<Rightarrow> adapter_call list \<times> MultiProviderSearchResponse" where
  "searchAll providers params =
     (let configuredProviders = getConfiguredProviders providers in
      if length configuredProviders = 0
      then ([], \<lparr> results = [], totalAcrossProviders = 0 \<rparr>)
      else
        (let rs = map (searchOne params) configuredProviders;
             total = foldl (\<lambda>sum r. sum + sr_total r) 0 rs
         in (map (\<lambda>p. CallSearchProjects (provider_id p) params) configuredProviders,
             \<lparr> results = rs, totalAcrossProviders = total \<rparr>)))"

section \<open>ModProviderService\<close>

text \<open>
  Every per-provider operation of the service starts with the same two statements:
  \<^verbatim>\<open>const provider = this.registry.getProvider(providerId); if (!provider) throw ...;
  if (!provider.isConfigured()) throw ...\<close>. \<open>configuredProvider\<close> is that block; the
  operations below continue from its result. Like \<open>searchAll\<close>, each operation returns the
  adapter calls it made together with the outcome of its promise.
\<close>

definition configuredProvider :: "registry \<Rightarrow> string \<Rightarrow> error + IModProvider" where
  "configuredProvider providers providerId =
     (case getProvider providers providerId of
        None \<Rightarrow> Inl (Error (''Provider not found: '' @ providerId))
      | Some provider \<Rightarrow>
          if \<not> isConfigured provider
          then Inl (Error (''Provider '' @ providerId @ '' is not configured. Please set up the API key.''))
          else Inr provider)"

definition service_search ::
  "registry \<Rightarrow> string \<Rightarrow> UnifiedSearchParams \<Rightarrow> adapter_call list \<times> (error + UnifiedSearchResponse)" where
  "service_search providers providerId params =
     (case configuredProvider providers providerId of
        Inl e \<Rightarrow> ([], Inl e)
      | Inr provider \<Rightarrow> ([CallSearchProjects providerId params], searchProjects provider params))"

definition service_searchAll ::
  "registry \<Rightarrow> UnifiedSearchParams \<Rightarrow> adapter_call list \<times> MultiProviderSearchResponse" where
  "service_searchAll providers params = searchAll providers params"

definition service_getProject ::
  "registry \<Rightarrow> string \<Rightarrow> string \<Rightarrow> adapter_call list \<times> (error + UnifiedProject)" where
  "service_getProject providers providerId projectId =
     (case configuredProvider providers providerId of
        Inl e \<Rightarrow> ([], Inl e)
      | Inr provider \<Rightarrow> ([CallGetProject providerId projectId], getProject provider projectId))"

definition service_getProjectBySlug ::
  "registry \<Rightarrow> string \<Rightarrow> string \<Rightarrow> adapter_call list \<times> (error + UnifiedProject)" where
  "service_getProjectBySlug providers providerId slug =
     (case configuredProvider providers providerId of
        Inl e \<Rightarrow> ([], Inl e)
      | Inr provider \<Rightarrow>
          (case getProjectBySlug provider of
             None \<Rightarrow> ([], Inl (Error (''Provider '' @ providerId @ '' does not support slug-based lookup'')))
           | Some bySlug \<Rightarrow> ([CallGetProjectBySlug providerId slug], bySlug slug)))"

definition service_getCategories ::
  "registry \<Rightarrow> string \<Rightarrow> adapter_call list \<times> (error + UnifiedCategory list)" where
  "service_getCategories providers providerId =
     (case configuredProvider providers providerId of
        Inl e \<Rightarrow> ([], Inl e)
      | Inr provider \<Rightarrow> ([CallGetCategories providerId], getCategories provider))"

definition service_getTags ::
  "registry \<Rightarrow> string \<Rightarrow> adapter_call list \<times> (error + UnifiedTag list)" where
  "service_getTags providers providerId =
     (case configuredProvider providers providerId of
        Inl e \<Rightarrow> ([], Inl e)
      | Inr provider \<Rightarrow>
          (case getTags provider of
             None \<Rightarrow> ([], Inr [])
           | Some tags \<Rightarrow> ([CallGetTags providerId], tags)))"

definition service_getVersionDependencies ::
  "registry \<Rightarrow> string \<Rightarrow> string \<Rightarrow> string \<Rightarrow> adapter_call list \<times> (error + UnifiedDependency list)" where
  "service_getVersionDependencies providers providerId projectId versionId =
     (case configuredProvider providers providerId of
        Inl e \<Rightarrow> ([], Inl e)
      | Inr provider \<Rightarrow>
          ([CallGetVersionDependencies providerId projectId versionId],
           getVersionDependencies provider projectId versionId))"

definition service_downloadVersion ::
  "registry \<Rightarrow> string \<Rightarrow> string \<Rightarrow> string \<Rightarrow> adapter_call list \<times> (error + stream)" where
  "service_downloadVersion providers providerId projectId versionId =
     (case configuredProvider providers providerId of
        Inl e \<Rightarrow> ([], Inl e)
      | Inr provider \<Rightarrow>
          ([CallDownloadVersion providerId projectId versionId],
           downloadVersion provider projectId versionId))"

text \<open>\<^verbatim>\<open>project.versions.find(v => v.id === versionId) || project.latestVersion\<close>: a version
  object is truthy, so the right operand is taken exactly when \<^verbatim>\<open>find\<close> gives
  \<^verbatim>\<open>undefined\<close>.\<close>

definition resolveVersion :: "UnifiedProject \<Rightarrow> string \<Rightarrow> UnifiedVersion option" where
  "resolveVersion project versionId =
     (case find (\<lambda>v. uv_id v = versionId) (up_versions project) of
        Some v \<Rightarrow> Some v
      | None \<Rightarrow> up_latestVersion project)"

definition downloadForInstallation ::
  "registry \<Rightarrow> string \<Rightarrow> string \<Rightarrow> string \<Rightarrow>
     adapter_call list \<times> (error + stream \<times> UnifiedModMetadata)" where
  "downloadForInstallation providers providerId projectId versionId =
     (case configuredProvider providers providerId of
        Inl e \<Rightarrow> ([], Inl e)
      | Inr provider \<Rightarrow>
          (case getProject provider projectId of
             Inl e \<Rightarrow> ([CallGetProject providerId projectId], Inl e)
           | Inr project \<Rightarrow>
               (case resolveVersion project versionId of
                  None \<Rightarrow>
                    ([CallGetProject providerId projectId],
                     Inl (Error (''Version '' @ versionId @ '' not found for project '' @ projectId)))
                | Some version \<Rightarrow>
                    (case downloadVersion provider projectId versionId of
                       Inl e \<Rightarrow>
                         ([CallGetProject providerId projectId,
                           CallDownloadVersion providerId projectId versionId], Inl e)
                     | Inr stream \<Rightarrow>
                         ([CallGetProject providerId projectId,
                           CallDownloadVersion providerId projectId versionId],
                          Inr (stream,
                               \<lparr> md_providerId = providerId,
                                 md_projectId = projectId,
                                 md_projectTitle = up_title project,
                                 md_projectIconUrl = up_iconUrl project,
                                 md_versionId = versionId,
                                 md_versionName = uv_version version,
                                 md_classification = up_classification project,
                                 md_fileSize = Some (uv_fileSize version),
                                 md_fileHash = None \<rparr>))))))"

section \<open>JavaScript operations on values\<close>

text \<open>Strings hold ASCII text: one \<open>char\<close> is one character of the JavaScript string.
  \<^verbatim>\<open>Number.prototype.toString\<close> on an integer is its decimal notation.\<close>

definition digit_char :: "nat \<Rightarrow> char" where
  "digit_char d = ''0123456789'' ! (d mod 10)"

fun nat_digits :: "nat \<Rightarrow> string" where
  "nat_digits n = (if n < 10 then [digit_char n] else nat_digits (n div 10) @ [digit_char (n mod 10)])"

declare nat_digits.simps [simp del]

definition int_to_string :: "int \<Rightarrow> string" where
  "int_to_string n = (if n < 0 then CHR ''-'' # nat_digits (nat (- n)) else nat_digits (nat n))"

text \<open>\<^verbatim>\<open>StringToNumber\<close>, for the strings that denote an integer in decimal notation:
  white space around it is dropped, the empty string is 0, a sign may lead. Every other
  string gives \<^verbatim>\<open>NaN\<close> here; a string that denotes a number in another notation (a
  fraction, an exponent, hexadecimal, \<^verbatim>\<open>Infinity\<close>) is outside the model.\<close>

definition is_space :: "char \<Rightarrow> bool" where
  "is_space c = (of_char c \<in> {9, 10, 11, 12, 13, 32 :: nat})"

definition is_digit :: "char \<Rightarrow> bool" where
  "is_digit c = (48 \<le> (of_char c :: nat) \<and> (of_char c :: nat) \<le> 57)"

definition trim :: "string \<Rightarrow> string" where
  "trim s = rev (dropWhile is_space (rev (dropWhile is_space s)))"

definition digits_value :: "string \<Rightarrow> int" where
  "digits_value ds = foldl (\<lambda>acc c. 10 * acc + (int (of_char c) - 48)) 0 ds"

definition string_to_number :: "string \<Rightarrow> jsval" where
  "string_to_number s =
     (let t = trim s;
          unsigned = (\<lambda>ds. ds \<noteq> [] \<and> list_all is_digit ds)
      in if t = [] then JNum 0
         else if hd t = CHR ''-'' \<and> unsigned (tl t) then JNum (- digits_value (tl t))
         else if hd t = CHR ''+'' \<and> unsigned (tl t) then JNum (digits_value (tl t))
         else if unsigned t then JNum (digits_value t)
         else JNaN)"

text \<open>Truthiness, \<^verbatim>\<open>a || b\<close> (both operands are side-effect free wherever it is used),
  and the test \<^verbatim>\<open>v == null\<close> that \<^verbatim>\<open>?.\<close> and a property read make.\<close>

fun truthy :: "jsval \<Rightarrow> bool" where
  "truthy JUndefined = False"
| "truthy JNull = False"
| "truthy (JBool b) = b"
| "truthy (JNum n) = (n \<noteq> 0)"
| "truthy JNaN = False"
| "truthy (JStr s) = (s \<noteq> [])"
| "truthy (JArr xs) = True"
| "truthy (JObj kvs) = True"

definition jor :: "jsval \<Rightarrow> jsval \<Rightarrow> jsval" where
  "jor a b = (if truthy a then a else b)"

fun nullish :: "jsval \<Rightarrow> bool" where
  "nullish JUndefined = True"
| "nullish JNull = True"
| "nullish v = False"

fun isArray :: "jsval \<Rightarrow> bool" where
  "isArray (JArr xs) = True"
| "isArray v = False"

fun isString :: "jsval \<Rightarrow> bool" where
  "isString (JStr s) = True"
| "isString v = False"

text \<open>\<^verbatim>\<open>o.k\<close> on a receiver that is neither \<^verbatim>\<open>null\<close> nor \<^verbatim>\<open>undefined\<close>: an own property of
  an object, the length of an array or a string, and \<^verbatim>\<open>undefined\<close> otherwise (none of the
  names the adapters read is inherited from a prototype). \<open>getprop\<close> is the read with
  its \<^verbatim>\<open>TypeError\<close>.\<close>

fun jsget :: "jsval \<Rightarrow> string \<Rightarrow> jsval" where
  "jsget (JObj kvs) k = (case map_of kvs k of Some v \<Rightarrow> v | None \<Rightarrow> JUndefined)"
| "jsget (JArr xs) k = (if k = ''length'' then JNum (int (length xs)) else JUndefined)"
| "jsget (JStr s) k = (if k = ''length'' then JNum (int (length s)) else JUndefined)"
| "jsget v k = JUndefined"

definition getprop :: "jsval \<Rightarrow> string \<Rightarrow> error + jsval" where
  "getprop v k = (if nullish v then Inl TypeError else Inr (jsget v k))"

text \<open>\<^verbatim>\<open>'k' in o\<close> for a name \<open>k\<close> that is no array index, used behind
  \<^verbatim>\<open>o && typeof o === 'object'\<close>: on an object or an array.\<close>

fun hasKey :: "string \<Rightarrow> jsval \<Rightarrow> bool" where
  "hasKey k (JObj kvs) = (k \<in> fst ` set kvs)"
| "hasKey k (JArr xs) = (k = ''length'')"
| "hasKey k v = False"

fun isObject :: "jsval \<Rightarrow> bool" where
  "isObject (JObj kvs) = True"
| "isObject (JArr xs) = True"
| "isObject v = False"

text \<open>\<^verbatim>\<open>o[0]\<close> on a receiver that is neither \<^verbatim>\<open>null\<close> nor \<^verbatim>\<open>undefined\<close>.\<close>

fun index0 :: "jsval \<Rightarrow> jsval" where
  "index0 (JArr xs) = (case xs of [] \<Rightarrow> JUndefined | x # _ \<Rightarrow> x)"
| "index0 (JStr s) = (case s of [] \<Rightarrow> JUndefined | c # _ \<Rightarrow> JStr [c])"
| "index0 (JObj kvs) = jsget (JObj kvs) ''0''"
| "index0 v = JUndefined"

text \<open>\<^verbatim>\<open>String(v)\<close>. An array is its elements joined by commas, \<^verbatim>\<open>null\<close> and \<^verbatim>\<open>undefined\<close>
  elements giving the empty string; an object of parsed JSON is \<^verbatim>\<open>[object Object]\<close>.\<close>

fun join :: "string \<Rightarrow> string list \<Rightarrow> string" where
  "join sep [] = []"
| "join sep [s] = s"
| "join sep (s # t # ss) = s @ sep @ join sep (t # ss)"

fun jsString :: "jsval \<Rightarrow> string" where
  "jsString JUndefined = ''undefined''"
| "jsString JNull = ''null''"
| "jsString (JBool b) = (if b then ''true'' else ''false'')"
| "jsString (JNum n) = int_to_string n"
| "jsString JNaN = ''NaN''"
| "jsString (JStr s) = s"
| "jsString (JArr xs) = join '','' (map (\<lambda>x. if nullish x then [] else jsString x) xs)"
| "jsString (JObj kvs) = ''[object Object]''"

text \<open>\<^verbatim>\<open>Number(v)\<close> and \<^verbatim>\<open>Boolean(v)\<close>.\<close>

fun jsNumber :: "jsval \<Rightarrow> jsval" where
  "jsNumber JUndefined = JNaN"
| "jsNumber JNull = JNum 0"
| "jsNumber (JBool b) = JNum (if b then 1 else 0)"
| "jsNumber (JNum n) = JNum n"
| "jsNumber JNaN = JNaN"
| "jsNumber (JStr s) = string_to_number s"
| "jsNumber (JArr xs) = string_to_number (jsString (JArr xs))"
| "jsNumber (JObj kvs) = JNaN"

definition jsBoolean :: "jsval \<Rightarrow> jsval" where
  "jsBoolean v = JBool (truthy v)"

text \<open>\<^verbatim>\<open>a + b\<close>: string concatenation as soon as one operand, made primitive, is a string;
  the sum of the operands as numbers otherwise.\<close>

fun toPrimitive :: "jsval \<Rightarrow> jsval" where
  "toPrimitive (JArr xs) = JStr (jsString (JArr xs))"
| "toPrimitive (JObj kvs) = JStr (jsString (JObj kvs))"
| "toPrimitive v = v"

definition jsAdd :: "jsval \<Rightarrow> jsval \<Rightarrow> jsval" where
  "jsAdd a b =
     (let pa = toPrimitive a; pb = toPrimitive b in
      if isString pa \<or> isString pb then JStr (jsString pa @ jsString pb)
      else (case (jsNumber pa, jsNumber pb) of
              (JNum x, JNum y) \<Rightarrow> JNum (x + y)
            | _ \<Rightarrow> JNaN))"

text \<open>\<^verbatim>\<open>a < b\<close>: two strings compare by their character codes, anything else as numbers,
  and a comparison with \<^verbatim>\<open>NaN\<close> is false.\<close>

fun string_less :: "string \<Rightarrow> string \<Rightarrow> bool" where
  "string_less [] [] = False"
| "string_less [] (d # t) = True"
| "string_less (c # s) [] = False"
| "string_less (c # s) (d # t) =
     ((of_char c :: nat) < of_char d \<or> (c = d \<and> string_less s t))"

definition jsLess :: "jsval \<Rightarrow> jsval \<Rightarrow> bool" where
  "jsLess a b =
     (case (toPrimitive a, toPrimitive b) of
        (JStr s, JStr t) \<Rightarrow> string_less s t
      | (pa, pb) \<Rightarrow>
          (case (jsNumber pa, jsNumber pb) of
             (JNum x, JNum y) \<Rightarrow> x < y
           | _ \<Rightarrow> False))"

text \<open>Optional numbers of the typed search parameters, as values.\<close>

definition optNum :: "int option \<Rightarrow> jsval" where
  "optNum a = (case a of None \<Rightarrow> JUndefined | Some n \<Rightarrow> JNum n)"

text \<open>Exceptions: \<open>bindE\<close> runs the continuation on a result and passes a raised error
  on; \<open>mapE\<close> is \<^verbatim>\<open>Array.prototype.map\<close> with a callback that can raise, called on
  the elements from left to right.\<close>

definition bindE :: "error + 'a \<Rightarrow> ('a \<Rightarrow> error + 'b) \<Rightarrow> error + 'b" where
  "bindE x f = (case x of Inl e \<Rightarrow> Inl e | Inr v \<Rightarrow> f v)"

fun mapE :: "('a \<Rightarrow> error + 'b) \<Rightarrow> 'a list \<Rightarrow> error + 'b list" where
  "mapE f [] = Inr []"
| "mapE f (x # xs) = bindE (f x) (\<lambda>y. bindE (mapE f xs) (\<lambda>ys. Inr (y # ys)))"

text \<open>\<^verbatim>\<open>a.map(f)\<close> on a value that has to be an array to have a \<^verbatim>\<open>map\<close> method.\<close>

definition arrayMap :: "(jsval \<Rightarrow> error + jsval) \<Rightarrow> jsval \<Rightarrow> error + jsval list" where
  "arrayMap f a = (case a of JArr xs \<Rightarrow> mapE f xs | _ \<Rightarrow> Inl TypeError)"

text \<open>\<^verbatim>\<open>a.find(p)\<close> with a callback that can raise: the first element the callback accepts,
  \<^verbatim>\<open>undefined\<close> when there is none.\<close>

fun findE :: "(jsval \<Rightarrow> error + bool) \<Rightarrow> jsval list \<Rightarrow> error + jsval" where
  "findE p [] = Inr JUndefined"
| "findE p (x # xs) = bindE (p x) (\<lambda>b. if b then Inr x else findE p xs)"

text \<open>\<^verbatim>\<open>for (const x of v)\<close>: the elements of an array, the characters of a string, and a
  \<^verbatim>\<open>TypeError\<close> for a value that is not iterable.\<close>

definition iterate :: "jsval \<Rightarrow> error + jsval list" where
  "iterate v =
     (case v of JArr xs \<Rightarrow> Inr xs | JStr s \<Rightarrow> Inr (map (\<lambda>c. JStr [c]) s) | _ \<Rightarrow> Inl TypeError)"

text \<open>String methods: \<^verbatim>\<open>toLowerCase\<close> (on ASCII letters) and \<^verbatim>\<open>includes\<close>.\<close>

definition lower_char :: "char \<Rightarrow> char" where
  "lower_char c =
     (if 65 \<le> (of_char c :: nat) \<and> (of_char c :: nat) \<le> 90 then char_of (of_char c + 32 :: nat) else c)"

definition toLowerCase :: "string \<Rightarrow> string" where
  "toLowerCase s = map lower_char s"

fun str_includes :: "string \<Rightarrow> string \<Rightarrow> bool" where
  "str_includes [] t = (t = [])"
| "str_includes (c # s) t = (take (length t) (c # s) = t \<or> str_includes s t)"

text \<open>The key equality of \<^verbatim>\<open>Map\<close>, \<^verbatim>\<open>Set\<close> and \<^verbatim>\<open>Array.prototype.includes\<close>: primitive values
  are equal when they are the same value; two objects or arrays of a parsed reply are
  never the same object.\<close>

definition sameValueZero :: "jsval \<Rightarrow> jsval \<Rightarrow> bool" where
  "sameValueZero a b = (\<not> isObject a \<and> a = b)"

text \<open>\<^verbatim>\<open>[...new Set(xs)]\<close>: the first occurrence of every value, in order.\<close>

fun setAddAll :: "jsval list \<Rightarrow> jsval list \<Rightarrow> jsval list" where
  "setAddAll seen [] = seen"
| "setAddAll seen (x # xs) =
     setAddAll (if list_ex (\<lambda>y. sameValueZero y x) seen then seen else seen @ [x]) xs"

text \<open>\<^verbatim>\<open>typeof v === 'number' && v >= 0\<close>.\<close>

definition nonneg_number :: "jsval \<Rightarrow> bool" where
  "nonneg_number v = (case v of JNum n \<Rightarrow> 0 \<le> n | _ \<Rightarrow> False)"

section \<open>Upstream requests\<close>

text \<open>
  The registry and the service are written against the declared interface and were
  modelled on it above. The adapters are where the declared types meet the replies of a
  marketplace: an adapter's results are modelled as the JavaScript objects its object
  literals build, with whatever values the reply put into them.

  An adapter method reaches its marketplace through the adapter's private \<^verbatim>\<open>request\<close>,
  which rejects when the HTTP status is not a success (or the body is not JSON) and
  resolves to the parsed body otherwise. The marketplace is a function from the request
  (the path of the endpoint and the entries appended to its \<^verbatim>\<open>URLSearchParams\<close>, in order)
  to that outcome. The log holds the entries written with \<^verbatim>\<open>logger.warn\<close>.
\<close>

record http_request =
  req_path :: string
  req_query :: "(string \<times> string) list"

type_synonym upstream = "http_request \<Rightarrow> error + jsval"

definition classification_name :: "UnifiedClassification \<Rightarrow> string" where
  "classification_name c =
     (case c of PLUGIN \<Rightarrow> ''PLUGIN'' | DATA \<Rightarrow> ''DATA'' | ART \<Rightarrow> ''ART'' | SAVE \<Rightarrow> ''SAVE''
      | MODPACK \<Rightarrow> ''MODPACK'')"

definition sortBy_name :: "SortBy \<Rightarrow> string" where
  "sortBy_name s =
     (case s of SortDownloads \<Rightarrow> ''downloads'' | SortRating \<Rightarrow> ''rating''
      | SortUpdated \<Rightarrow> ''updated'' | SortCreated \<Rightarrow> ''created'' | SortName \<Rightarrow> ''name'')"

definition sortOrder_name :: "SortOrder \<Rightarrow> string" where
  "sortOrder_name s = (case s of Asc \<Rightarrow> ''asc'' | Desc \<Rightarrow> ''desc'')"

text \<open>The empty response that both adapters build as an object literal.\<close>

definition emptyResponse :: "jsval \<Rightarrow> jsval \<Rightarrow> string \<Rightarrow> jsval" where
  "emptyResponse page pageSize providerId =
     JObj [(''projects'', JArr []),
           (''total'', JNum 0),
           (''page'', page),
           (''pageSize'', pageSize),
           (''hasMore'', JBool False),
           (''providerId'', JStr providerId)]"

section \<open>ModtaleProvider\<close>

text \<open>The adapter's state is its API key (\<^verbatim>\<open>null\<close> at construction). Its methods take
  upstream payloads as \<^verbatim>\<open>Record<string, unknown>\<close> and build the unified objects as
  object literals, which are modelled as the objects they are.\<close>

record modtale_state =
  mt_apiKey :: "string option"

definition mt_id :: string where
  "mt_id = ''modtale''"

definition mt_isConfigured :: "modtale_state \<Rightarrow> bool" where
  "mt_isConfigured st = (case mt_apiKey st of None \<Rightarrow> False | Some k \<Rightarrow> k \<noteq> [])"

definition mt_setApiKey :: "string \<Rightarrow> modtale_state \<Rightarrow> modtale_state" where
  "mt_setApiKey apiKey st = st\<lparr> mt_apiKey := Some apiKey \<rparr>"

definition mt_request :: "modtale_state \<Rightarrow> upstream \<Rightarrow> http_request \<Rightarrow> error + jsval" where
  "mt_request st up req =
     (if \<not> mt_isConfigured st then Inl (Error ''Modtale API key not configured'')
      else up req)"

definition mt_transformVersion :: "jsval \<Rightarrow> error + jsval" where
  "mt_transformVersion version =
     (if nullish version then Inl TypeError
      else Inr (JObj
        [(''id'', JStr (jsString (jor (jsget version ''id'') (JStr [])))),
         (''version'', JStr (jsString
            (jor (jor (jsget version ''version'') (jsget version ''versionNumber'')) (JStr [])))),
         (''changelog'',
            if truthy (jsget version ''changelog'')
            then JStr (jsString (jsget version ''changelog'')) else JUndefined),
         (''downloads'', jsNumber
            (jor (jor (jsget version ''downloadCount'') (jsget version ''downloads'')) (JNum 0))),
         (''gameVersion'', JStr (jsString
            (jor (jor (jsget version ''gameVersion'')
                      (if nullish (jsget version ''gameVersions'') then JUndefined
                       else index0 (jsget version ''gameVersions'')))
                 (JStr [])))),
         (''releaseDate'', JStr (jsString
            (jor (jor (jor (jor (jsget version ''createdAt'') (jsget version ''createdDate''))
                           (jsget version ''releaseDate''))
                      (jsget version ''publishedAt''))
                 (JStr [])))),
         (''fileSize'', jsNumber
            (jor (jor (jsget version ''fileSize'') (jsget version ''size'')) (JNum 0))),
         (''fileName'', JStr (jsString
            (jor (jor (jsget version ''fileName'') (jsget version ''file'')) (JStr []))))]))"

definition mt_transformAuthor :: "jsval \<Rightarrow> error + jsval" where
  "mt_transformAuthor author =
     (case author of
        JStr s \<Rightarrow> Inr (JObj [(''id'', JStr s), (''username'', JStr s), (''displayName'', JStr s)])
      | _ \<Rightarrow>
          if nullish author then Inl TypeError
          else Inr (JObj
            [(''id'', JStr (jsString
                (jor (jor (jsget author ''id'') (jsget author ''username'')) (JStr [])))),
             (''username'', JStr (jsString
                (jor (jor (jsget author ''username'') (jsget author ''name'')) (JStr [])))),
             (''displayName'', JStr (jsString
                (jor (jor (jor (jsget author ''displayName'') (jsget author ''name''))
                          (jsget author ''username''))
                     (JStr [])))),
             (''avatarUrl'',
                if truthy (jsget author ''avatarUrl'')
                then JStr (jsString (jsget author ''avatarUrl'')) else JUndefined)]))"

text \<open>The callback that \<^verbatim>\<open>transformProject\<close> maps over \<^verbatim>\<open>project.tags\<close>.\<close>

definition mt_transformTag :: "jsval \<Rightarrow> error + jsval" where
  "mt_transformTag tag =
     (case tag of
        JStr s \<Rightarrow> Inr (JObj [(''id'', JStr s), (''name'', JStr s), (''slug'', JStr s)])
      | _ \<Rightarrow>
          if nullish tag then Inl TypeError
          else Inr (JObj
            [(''id'', JStr (jsString (jor (jsget tag ''id'') (jsget tag ''name'')))),
             (''name'', JStr (jsString (jor (jor (jsget tag ''name'') (jsget tag ''id'')) tag))),
             (''slug'', JStr (jsString
                (jor (jor (jor (jsget tag ''slug'') (jsget tag ''name'')) (jsget tag ''id'')) tag)))]))"

definition mt_transformProject :: "jsval \<Rightarrow> error + jsval" where
  "mt_transformProject project =
     (if nullish project then Inl TypeError
      else
        bindE (if isArray (jsget project ''versions'')
               then arrayMap mt_transformVersion (jsget project ''versions'') else Inr [])
          (\<lambda>versions.
        bindE (if isArray (jsget project ''tags'')
               then arrayMap mt_transformTag (jsget project ''tags'') else Inr [])
          (\<lambda>tags.
        bindE (mt_transformAuthor (jsget project ''author''))
          (\<lambda>author.
        Inr (JObj
          [(''id'', JStr (jsString (jor (jsget project ''id'') (JStr [])))),
           (''slug'', JStr (jsString
              (jor (jor (jsget project ''slug'') (jsget project ''id'')) (JStr [])))),
           (''providerId'', JStr mt_id),
           (''title'', JStr (jsString
              (jor (jor (jsget project ''title'') (jsget project ''name'')) (JStr [])))),
           (''description'', JStr (jsString (jor (jsget project ''description'') (JStr [])))),
           (''shortDescription'',
              if truthy (jsget project ''shortDescription'')
              then JStr (jsString (jsget project ''shortDescription''))
              else JStr (take 200 (jsString (jor (jsget project ''description'') (JStr []))))),
           (''classification'', jor (jsget project ''classification'') (JStr ''PLUGIN'')),
           (''author'', author),
           (''categories'', JArr []),
           (''tags'', JArr tags),
           (''downloads'', jsNumber
              (jor (jor (jsget project ''downloadCount'') (jsget project ''downloads'')) (JNum 0))),
           (''rating'', jsNumber
              (jor (jor (jsget project ''rating'') (jsget project ''averageRating'')) (JNum 0))),
           (''ratingCount'', jsNumber
              (jor (jor (jsget project ''favoriteCount'') (jsget project ''ratingCount'')) (JNum 0))),
           (''iconUrl'',
              if truthy (jsget project ''imageUrl'') then JStr (jsString (jsget project ''imageUrl''))
              else if truthy (jsget project ''iconUrl'') then JStr (jsString (jsget project ''iconUrl''))
              else JUndefined),
           (''bannerUrl'',
              if truthy (jsget project ''bannerUrl'') then JStr (jsString (jsget project ''bannerUrl''))
              else JUndefined),
           (''galleryImages'',
              (case jsget project ''galleryImages'' of
                 JArr imgs \<Rightarrow> JArr (map (\<lambda>i. JStr (jsString i)) imgs)
               | _ \<Rightarrow> JUndefined)),
           (''versions'', JArr versions),
           (''latestVersion'', index0 (JArr versions)),
           (''gameVersions'',
              (case jsget project ''gameVersions'' of
                 JArr gvs \<Rightarrow> JArr (map (\<lambda>g. JStr (jsString g)) gvs)
               | _ \<Rightarrow> JArr [])),
           (''createdAt'', JStr (jsString
              (jor (jor (jsget project ''createdAt'') (jsget project ''createdDate'')) (JStr [])))),
           (''updatedAt'', JStr (jsString
              (jor (jor (jor (jsget project ''updatedAt'') (jsget project ''updatedDate''))
                        (jsget project ''modifiedDate''))
                   (JStr [])))),
           (''featured'', jsBoolean (jsget project ''featured'')),
           (''_raw'', project)])))))"

definition mt_mapSortField :: "string \<Rightarrow> string" where
  "mt_mapSortField sortBy =
     (case map_of [(''downloads'', ''downloadCount''), (''rating'', ''rating''),
                   (''updated'', ''updatedDate''), (''created'', ''createdDate''),
                   (''name'', ''title'')] sortBy of
        Some f \<Rightarrow> if f \<noteq> [] then f else sortBy
      | None \<Rightarrow> sortBy)"

text \<open>The request of \<^verbatim>\<open>searchProjects\<close>: the entries appended to \<^verbatim>\<open>queryParams\<close>, in the
  order of the source. Modtale counts pages from 0.\<close>

definition mt_searchRequest :: "UnifiedSearchParams \<Rightarrow> http_request" where
  "mt_searchRequest params =
     \<lparr> req_path = ''/projects'',
       req_query =
         (case sp_query params of Some q \<Rightarrow> if q \<noteq> [] then [(''search'', q)] else [] | None \<Rightarrow> [])
         @ (case sp_classification params of
              Some c \<Rightarrow> [(''classification'', classification_name c)] | None \<Rightarrow> [])
         @ (case sp_tags params of
              Some ts \<Rightarrow> if length ts \<noteq> 0 then [(''tags'', join '','' ts)] else [] | None \<Rightarrow> [])
         @ (case sp_gameVersion params of
              Some g \<Rightarrow> if g \<noteq> [] then [(''gameVersion'', g)] else [] | None \<Rightarrow> [])
         @ [(''page'', int_to_string (num_nullish (sp_page params) 1 - 1)),
            (''size'', int_to_string (num_nullish (sp_pageSize params) 50))]
         @ (case sp_sortBy params of
              Some s \<Rightarrow>
                [(''sort'',
                   mt_mapSortField (sortBy_name s) @ '','' @
                   (case sp_sortOrder params of Some ord \<Rightarrow> sortOrder_name ord | None \<Rightarrow> ''desc''))]
            | None \<Rightarrow> []) \<rparr>"

text \<open>What \<^verbatim>\<open>searchProjects\<close> makes of the parsed reply: the warnings it logs and the
  outcome. The three shapes are probed in the order of the source.\<close>

definition mt_searchResult :: "UnifiedSearchParams \<Rightarrow> jsval \<Rightarrow> string list \<times> (error + jsval)" where
  "mt_searchResult params response =
     (if truthy response \<and> isObject response \<and> hasKey ''content'' response then
        ([], bindE (arrayMap mt_transformProject (jsget response ''content''))
          (\<lambda>projects. Inr (JObj
            [(''projects'', JArr projects),
             (''total'', jsNumber (jor (jsget response ''totalElements'')
                                       (jsget (jsget response ''content'') ''length''))),
             (''page'', jsAdd (jsNumber (jor (jsget response ''number'') (JNum 0))) (JNum 1)),
             (''pageSize'', jsNumber
                (jor (jor (jsget response ''size'') (optNum (sp_pageSize params))) (JNum 50))),
             (''hasMore'', JBool (\<not> truthy (jsget response ''last''))),
             (''providerId'', JStr mt_id)])))
      else if isArray response then
        ([], bindE (arrayMap mt_transformProject response)
          (\<lambda>projects. Inr (JObj
            [(''projects'', JArr projects),
             (''total'', jsget response ''length''),
             (''page'', JNum (num_or (sp_page params) 1)),
             (''pageSize'', JNum (num_or (sp_pageSize params) 50)),
             (''hasMore'', JBool (\<not> jsLess (jsget response ''length'')
                                           (JNum (num_or (sp_pageSize params) 50)))),
             (''providerId'', JStr mt_id)])))
      else if truthy response \<and> isObject response \<and> hasKey ''projects'' response then
        ([], bindE (arrayMap mt_transformProject (jsget response ''projects''))
          (\<lambda>projects. Inr (JObj
            [(''projects'', JArr projects),
             (''total'', jsNumber (jor (jsget response ''total'')
                                       (jsget (jsget response ''projects'') ''length''))),
             (''page'', jsNumber
                (jor (jor (jsget response ''page'') (optNum (sp_page params))) (JNum 1))),
             (''pageSize'', jsNumber
                (jor (jor (jsget response ''limit'') (optNum (sp_pageSize params))) (JNum 50))),
             (''hasMore'', jsBoolean (jsget response ''hasMore'')),
             (''providerId'', JStr mt_id)])))
      else
        ([''[ModtaleProvider] Unexpected response format''],
         Inr (emptyResponse (JNum (num_or (sp_page params) 1))
                (JNum (num_or (sp_pageSize params) 50)) mt_id)))"

definition mt_searchProjects ::
  "modtale_state \<Rightarrow> upstream \<Rightarrow> UnifiedSearchParams \<Rightarrow> string list \<times> (error + jsval)" where
  "mt_searchProjects st up params =
     (case mt_request st up (mt_searchRequest params) of
        Inl e \<Rightarrow> ([], Inl e)
      | Inr response \<Rightarrow> mt_searchResult params response)"

definition mt_getProject :: "modtale_state \<Rightarrow> upstream \<Rightarrow> string \<Rightarrow> error + jsval" where
  "mt_getProject st up projectId =
     bindE (mt_request st up \<lparr> req_path = ''/projects/'' @ projectId, req_query = [] \<rparr>)
       mt_transformProject"

text \<open>The callback that \<^verbatim>\<open>getVersionDependencies\<close> maps over the dependencies.\<close>

definition mt_transformDependency :: "jsval \<Rightarrow> error + jsval" where
  "mt_transformDependency dep =
     (case dep of
        JStr s \<Rightarrow>
          Inr (JObj [(''projectId'', JStr s), (''projectName'', JStr s), (''versionId'', JUndefined),
                     (''required'', JBool True), (''type'', JStr ''required'')])
      | _ \<Rightarrow>
          if nullish dep then Inl TypeError
          else Inr (JObj
            [(''projectId'', JStr (jsString
                (jor (jor (jsget dep ''modId'') (jsget dep ''projectId'')) (jsget dep ''id'')))),
             (''projectName'', JStr (jsString
                (jor (jor (jor (jsget dep ''name'') (jsget dep ''projectName'')) (jsget dep ''modId''))
                     (jsget dep ''projectId'')))),
             (''versionId'',
                if truthy (jsget dep ''versionId'') then JStr (jsString (jsget dep ''versionId''))
                else JUndefined),
             (''required'', JBool (jsget dep ''required'' \<noteq> JBool False)),
             (''type'',
                JStr (if jsget dep ''required'' \<noteq> JBool False then ''required'' else ''optional''))]))"

text \<open>\<^verbatim>\<open>versions?.find((v) => v.id === versionId)\<close>: \<^verbatim>\<open>undefined\<close> when \<^verbatim>\<open>versions\<close> is
  \<^verbatim>\<open>null\<close> or \<^verbatim>\<open>undefined\<close>, a \<^verbatim>\<open>TypeError\<close> when it is no array or when the callback
  reads \<^verbatim>\<open>id\<close> of a \<^verbatim>\<open>null\<close> element before it has found the version.\<close>

definition mt_findVersion :: "jsval \<Rightarrow> string \<Rightarrow> error + jsval" where
  "mt_findVersion versions versionId =
     (if nullish versions then Inr JUndefined
      else (case versions of
              JArr vs \<Rightarrow>
                findE (\<lambda>v. if nullish v then Inl TypeError else Inr (jsget v ''id'' = JStr versionId)) vs
            | _ \<Rightarrow> Inl TypeError))"

text \<open>The body of the \<^verbatim>\<open>try\<close> block of \<^verbatim>\<open>getVersionDependencies\<close>, and the method: any
  error raised in the block is caught and turned into an empty list.\<close>

definition mt_dependenciesBody ::
  "modtale_state \<Rightarrow> upstream \<Rightarrow> string \<Rightarrow> string \<Rightarrow> error + string list \<times> jsval list" where
  "mt_dependenciesBody st up projectId versionId =
     bindE (mt_request st up \<lparr> req_path = ''/projects/'' @ projectId, req_query = [] \<rparr>)
       (\<lambda>project.
     bindE (getprop project ''versions'')
       (\<lambda>versions.
     bindE (mt_findVersion versions versionId)
       (\<lambda>version.
          if \<not> truthy version then
            Inr ([''[ModtaleProvider] Version '' @ versionId @ '' not found for project '' @ projectId], [])
          else
            (let modIds = jor (jor (jsget version ''modIds'') (jsget version ''dependencies'')) (JArr [])
             in (case modIds of
                   JArr deps \<Rightarrow>
                     if length deps = 0 then Inr ([], [])
                     else bindE (mapE mt_transformDependency deps) (\<lambda>ds. Inr ([], ds))
                 | _ \<Rightarrow> Inr ([], []))))))"

definition mt_getVersionDependencies ::
  "modtale_state \<Rightarrow> upstream \<Rightarrow> string \<Rightarrow> string \<Rightarrow> string list \<times> jsval list" where
  "mt_getVersionDependencies st up projectId versionId =
     (case mt_dependenciesBody st up projectId versionId of
        Inl e \<Rightarrow> ([], [])
      | Inr r \<Rightarrow> r)"

section \<open>CurseForgeProvider\<close>

text \<open>
  The adapter's state: the API key, the game id it discovered (\<^verbatim>\<open>null\<close> at
  construction, then whatever \<^verbatim>\<open>id\<close> the games list carried, or the known id), the
  category list as the upstream sent it, and the map from class ids to classifications,
  in insertion order. The interfaces the source declares for upstream payloads are
  assertions about replies that are never checked at run time; the methods are modelled
  on the values as they arrive.
\<close>

record curseforge_state =
  cf_apiKey :: "string option"
  cf_hytaleGameId :: jsval
  cf_categories :: jsval
  cf_classificationMap :: "(jsval \<times> UnifiedClassification) list"

definition cf_id :: string where
  "cf_id = ''curseforge''"

definition HYTALE_GAME_ID :: int where
  "HYTALE_GAME_ID = 70216"

definition cf_initial :: curseforge_state where
  "cf_initial =
     \<lparr> cf_apiKey = None, cf_hytaleGameId = JNull, cf_categories = JArr [],
       cf_classificationMap = [] \<rparr>"

definition cf_isConfigured :: "curseforge_state \<Rightarrow> bool" where
  "cf_isConfigured st = (case cf_apiKey st of None \<Rightarrow> False | Some k \<Rightarrow> k \<noteq> [])"

definition cf_request :: "curseforge_state \<Rightarrow> upstream \<Rightarrow> http_request \<Rightarrow> error + jsval" where
  "cf_request st up req =
     (if \<not> cf_isConfigured st then Inl (Error ''CurseForge API key not configured'')
      else up req)"

text \<open>\<^verbatim>\<open>Map.prototype.set\<close> and \<^verbatim>\<open>get\<close> on the classification map.\<close>

fun cmap_set ::
  "jsval \<Rightarrow> UnifiedClassification \<Rightarrow> (jsval \<times> UnifiedClassification) list \<Rightarrow>
     (jsval \<times> UnifiedClassification) list" where
  "cmap_set k c [] = [(k, c)]"
| "cmap_set k c ((k', c') # m) =
     (if sameValueZero k' k then (k', c) # m else (k', c') # cmap_set k c m)"

fun cmap_get :: "(jsval \<times> UnifiedClassification) list \<Rightarrow> jsval \<Rightarrow> UnifiedClassification option" where
  "cmap_get [] k = None"
| "cmap_get ((k', c') # m) k = (if sameValueZero k' k then Some c' else cmap_get m k)"

text \<open>The chain of tests \<^verbatim>\<open>loadCategories\<close> runs on the lower-cased name of a class.\<close>

definition classOfName :: "string \<Rightarrow> UnifiedClassification option" where
  "classOfName name =
     (if str_includes name ''mod'' \<and> \<not> str_includes name ''modpack'' then Some PLUGIN
      else if str_includes name ''modpack'' \<or> str_includes name ''pack'' then Some MODPACK
      else if str_includes name ''resource'' \<or> str_includes name ''texture'' \<or> str_includes name ''art''
        then Some ART
      else if str_includes name ''world'' \<or> str_includes name ''save'' \<or> str_includes name ''map''
        then Some SAVE
      else if str_includes name ''data'' then Some DATA
      else None)"

text \<open>The \<^verbatim>\<open>for ... of\<close> loop of \<^verbatim>\<open>loadCategories\<close>. A \<^verbatim>\<open>TypeError\<close> (a \<^verbatim>\<open>null\<close> category,
  a class whose name is no string) ends the loop; the \<^verbatim>\<open>catch\<close> of \<^verbatim>\<open>loadCategories\<close>
  swallows it and the entries set so far stay.\<close>

fun cf_classifyAll ::
  "jsval list \<Rightarrow> (jsval \<times> UnifiedClassification) list \<Rightarrow> (jsval \<times> UnifiedClassification) list" where
  "cf_classifyAll [] m = m"
| "cf_classifyAll (cat # cats) m =
     (if nullish cat then m
      else if truthy (jsget cat ''isClass'') then
        (case jsget cat ''name'' of
           JStr name \<Rightarrow>
             cf_classifyAll cats
               (case classOfName (toLowerCase name) of
                  Some c \<Rightarrow> cmap_set (jsget cat ''id'') c m
                | None \<Rightarrow> m)
         | _ \<Rightarrow> m)
      else cf_classifyAll cats m)"

definition cf_loadCategories :: "upstream \<Rightarrow> curseforge_state \<Rightarrow> curseforge_state" where
  "cf_loadCategories up st =
     (if \<not> truthy (cf_hytaleGameId st) then st
      else
        (case bindE (cf_request st up
                       \<lparr> req_path = ''/v1/categories?gameId='' @ jsString (cf_hytaleGameId st),
                         req_query = [] \<rparr>)
                (\<lambda>response. getprop response ''data'') of
           Inl e \<Rightarrow> st
         | Inr data \<Rightarrow>
             (case iterate data of
                Inl e \<Rightarrow> st\<lparr> cf_categories := data \<rparr>
              | Inr cats \<Rightarrow>
                  st\<lparr> cf_categories := data,
                      cf_classificationMap := cf_classifyAll cats (cf_classificationMap st) \<rparr>)))"

text \<open>The callback of \<^verbatim>\<open>response.data.find\<close> in \<^verbatim>\<open>discoverHytaleGame\<close>; the disjuncts are
  evaluated from the left and the first true one ends the evaluation.\<close>

definition valueIncludes :: "jsval \<Rightarrow> string \<Rightarrow> error + bool" where
  "valueIncludes v t =
     (case v of
        JStr s \<Rightarrow> Inr (str_includes s t)
      | JArr xs \<Rightarrow> Inr (list_ex (\<lambda>x. sameValueZero x (JStr t)) xs)
      | _ \<Rightarrow> Inl TypeError)"

definition cf_isHytale :: "jsval \<Rightarrow> error + bool" where
  "cf_isHytale g =
     (if nullish g then Inl TypeError
      else if jsget g ''slug'' = JStr ''hytale'' then Inr True
      else
        (case jsget g ''name'' of
           JStr name \<Rightarrow>
             if toLowerCase name = ''hytale'' then Inr True
             else bindE (valueIncludes (jsget g ''slug'') ''hytale'')
               (\<lambda>b. if b then Inr True
                    else if str_includes (toLowerCase name) ''hytale'' then Inr True
                    else Inr (jsget g ''id'' = JNum HYTALE_GAME_ID))
         | _ \<Rightarrow> Inl TypeError))"

text \<open>\<^verbatim>\<open>discoverHytaleGame\<close> returns the new state and the warnings logged.\<close>

definition cf_discoverHytaleGame ::
  "upstream \<Rightarrow> curseforge_state \<Rightarrow> curseforge_state \<times> string list" where
  "cf_discoverHytaleGame up st =
     (if \<not> cf_isConfigured st then (st, [])
      else
        (case bindE (cf_request st up \<lparr> req_path = ''/v1/games'', req_query = [] \<rparr>)
                (\<lambda>response. bindE (getprop response ''data'')
                (\<lambda>data. bindE (getprop data ''length'')
                (\<lambda>n. case data of JArr games \<Rightarrow> findE cf_isHytale games | _ \<Rightarrow> Inl TypeError))) of
           Inr hytale \<Rightarrow>
             if truthy hytale
             then (cf_loadCategories up (st\<lparr> cf_hytaleGameId := jsget hytale ''id'' \<rparr>), [])
             else (cf_loadCategories up (st\<lparr> cf_hytaleGameId := JNum HYTALE_GAME_ID \<rparr>),
                   [''[CurseForgeProvider] Hytale not found in games list, using known game ID''])
         | Inl e \<Rightarrow> (st\<lparr> cf_hytaleGameId := JNum HYTALE_GAME_ID \<rparr>, [])))"

definition cf_getClassification :: "curseforge_state \<Rightarrow> jsval \<Rightarrow> UnifiedClassification" where
  "cf_getClassification st classId =
     (if \<not> truthy classId then PLUGIN
      else (case cmap_get (cf_classificationMap st) classId of Some c \<Rightarrow> c | None \<Rightarrow> PLUGIN))"

definition cf_transformFile :: "jsval \<Rightarrow> error + jsval" where
  "cf_transformFile file =
     (if nullish file then Inl TypeError
      else if nullish (jsget file ''gameVersions'') then Inl TypeError
      else Inr (JObj
        [(''id'', JStr (jsString (jsget file ''id''))),
         (''version'', jor (jsget file ''displayName'') (jsget file ''fileName'')),
         (''changelog'', JUndefined),
         (''downloads'', jsget file ''downloadCount''),
         (''gameVersion'', jor (index0 (jsget file ''gameVersions'')) (JStr [])),
         (''releaseDate'', jsget file ''fileDate''),
         (''fileSize'', jsget file ''fileLength''),
         (''fileName'', jsget file ''fileName'')]))"

text \<open>The pieces of \<^verbatim>\<open>transformMod\<close> that can raise, in the order the source evaluates
  them, and the method.\<close>

definition cf_author :: "jsval \<Rightarrow> error + jsval" where
  "cf_author authors =
     (if nullish authors then Inl TypeError
      else if truthy (index0 authors) then
        Inr (JObj [(''id'', JStr (jsString (jsget (index0 authors) ''id''))),
                   (''username'', jsget (index0 authors) ''name''),
                   (''displayName'', jsget (index0 authors) ''name'')])
      else Inr (JObj [(''id'', JStr ''unknown''), (''username'', JStr ''Unknown''),
                      (''displayName'', JStr ''Unknown'')]))"

definition cf_category :: "jsval \<Rightarrow> error + jsval" where
  "cf_category c =
     (if nullish c then Inl TypeError
      else Inr (JObj [(''id'', JStr (jsString (jsget c ''id''))),
                      (''name'', jsget c ''name''),
                      (''slug'', jsget c ''slug''),
                      (''iconUrl'', jsget c ''iconUrl'')]))"

definition cf_substring200 :: "jsval \<Rightarrow> error + jsval" where
  "cf_substring200 summary = (case summary of JStr s \<Rightarrow> Inr (JStr (take 200 s)) | _ \<Rightarrow> Inl TypeError)"

definition cf_bannerUrl :: "jsval \<Rightarrow> error + jsval" where
  "cf_bannerUrl screenshots =
     (if nullish screenshots then Inl TypeError
      else if nullish (index0 screenshots) then Inr JUndefined
      else Inr (jsget (index0 screenshots) ''url''))"

definition cf_transformMod :: "curseforge_state \<Rightarrow> jsval \<Rightarrow> error + jsval" where
  "cf_transformMod st modv =
     (if nullish modv then Inl TypeError
      else
        bindE (cf_author (jsget modv ''authors''))
          (\<lambda>author.
        bindE (arrayMap cf_transformFile (jsget modv ''latestFiles''))
          (\<lambda>versions.
        bindE (arrayMap cf_category (jsget modv ''categories''))
          (\<lambda>categories.
        bindE (arrayMap (\<lambda>f. getprop f ''gameVersion'') (jsget modv ''latestFilesIndexes''))
          (\<lambda>indexed.
        bindE (cf_substring200 (jsget modv ''summary''))
          (\<lambda>shortDescription.
        bindE (cf_bannerUrl (jsget modv ''screenshots''))
          (\<lambda>bannerUrl.
        bindE (arrayMap (\<lambda>s. getprop s ''url'') (jsget modv ''screenshots''))
          (\<lambda>galleryImages.
        Inr (JObj
          [(''id'', JStr (jsString (jsget modv ''id''))),
           (''slug'', jsget modv ''slug''),
           (''providerId'', JStr cf_id),
           (''title'', jsget modv ''name''),
           (''description'', jsget modv ''summary''),
           (''shortDescription'', shortDescription),
           (''classification'',
              JStr (classification_name (cf_getClassification st (jsget modv ''classId'')))),
           (''author'', author),
           (''categories'', JArr categories),
           (''downloads'', jsget modv ''downloadCount''),
           (''rating'', jsget modv ''rating''),
           (''ratingCount'', jsget modv ''thumbsUpCount''),
           (''iconUrl'',
              if nullish (jsget modv ''logo'') then JUndefined else jsget (jsget modv ''logo'') ''url''),
           (''bannerUrl'', bannerUrl),
           (''galleryImages'', JArr galleryImages),
           (''versions'', JArr versions),
           (''latestVersion'', index0 (JArr versions)),
           (''gameVersions'', JArr (setAddAll [] (filter truthy indexed))),
           (''createdAt'', jsget modv ''dateCreated''),
           (''updatedAt'', jsget modv ''dateModified''),
           (''featured'', jsget modv ''isFeatured''),
           (''_raw'', modv)])))))))))"

definition cf_mapSortField :: "string \<Rightarrow> int" where
  "cf_mapSortField sortBy =
     (case map_of [(''downloads'', 2), (''rating'', 3), (''updated'', 4), (''created'', 11),
                   (''name'', 1 :: int)] sortBy of
        Some n \<Rightarrow> if n \<noteq> 0 then n else 2
      | None \<Rightarrow> 2)"

text \<open>The request of \<^verbatim>\<open>searchProjects\<close>, built once the game id is known. The offset is
  \<^verbatim>\<open>(page - 1) * pageSize\<close>, with the page size capped at 50.\<close>

definition cf_searchRequest :: "curseforge_state \<Rightarrow> UnifiedSearchParams \<Rightarrow> http_request" where
  "cf_searchRequest st params =
     (let page = num_nullish (sp_page params) 1;
          pageSize = min (num_nullish (sp_pageSize params) 50) 50
      in \<lparr> req_path = ''/v1/mods/search'',
           req_query =
             [(''gameId'', jsString (cf_hytaleGameId st))]
             @ (case sp_query params of
                  Some q \<Rightarrow> if q \<noteq> [] then [(''searchFilter'', q)] else [] | None \<Rightarrow> [])
             @ (case sp_classification params of
                  Some c \<Rightarrow>
                    (case find (\<lambda>(classId, classification). classification = c)
                            (cf_classificationMap st) of
                       Some (classId, classification) \<Rightarrow> [(''classId'', jsString classId)]
                     | None \<Rightarrow> [])
                | None \<Rightarrow> [])
             @ (case sp_categories params of
                  Some cs \<Rightarrow>
                    if length cs \<noteq> 0 then [(''categoryIds'', ''['' @ join '','' cs @ '']'')] else []
                | None \<Rightarrow> [])
             @ (case sp_gameVersion params of
                  Some g \<Rightarrow> if g \<noteq> [] then [(''gameVersion'', g)] else [] | None \<Rightarrow> [])
             @ [(''index'', int_to_string ((page - 1) * pageSize)),
                (''pageSize'', int_to_string pageSize)]
             @ (case sp_sortBy params of
                  Some s \<Rightarrow>
                    [(''sortField'', int_to_string (cf_mapSortField (sortBy_name s))),
                     (''sortOrder'', if sp_sortOrder params = Some Asc then ''asc'' else ''desc'')]
                | None \<Rightarrow> []) \<rparr>)"

text \<open>What \<^verbatim>\<open>searchProjects\<close> makes of the parsed reply. There is no probing of shapes:
  the object literal reads \<^verbatim>\<open>response.data\<close> and \<^verbatim>\<open>response.pagination\<close> as declared.\<close>

definition cf_searchResult ::
  "curseforge_state \<Rightarrow> UnifiedSearchParams \<Rightarrow> jsval \<Rightarrow> error + jsval" where
  "cf_searchResult st params response =
     (let page = num_nullish (sp_page params) 1;
          pageSize = min (num_nullish (sp_pageSize params) 50) 50
      in bindE (getprop response ''data'')
           (\<lambda>data.
         bindE (arrayMap (cf_transformMod st) data)
           (\<lambda>projects.
         if nullish (jsget response ''pagination'') then Inl TypeError
         else Inr (JObj
           [(''projects'', JArr projects),
            (''total'', jsget (jsget response ''pagination'') ''totalCount''),
            (''page'', JNum page),
            (''pageSize'', JNum pageSize),
            (''hasMore'', JBool (jsLess
               (jsAdd (jsget (jsget response ''pagination'') ''index'')
                      (jsget (jsget response ''pagination'') ''resultCount''))
               (jsget (jsget response ''pagination'') ''totalCount''))),
            (''providerId'', JStr cf_id)]))))"

text \<open>\<^verbatim>\<open>searchProjects\<close> returns the new state of the adapter, the warnings logged and the
  outcome.\<close>

definition cf_searchProjects ::
  "upstream \<Rightarrow> curseforge_state \<Rightarrow> UnifiedSearchParams \<Rightarrow>
     curseforge_state \<times> string list \<times> (error + jsval)" where
  "cf_searchProjects up st params =
     (let (st1, warnings) =
            (if \<not> truthy (cf_hytaleGameId st) then cf_discoverHytaleGame up st else (st, []))
      in if \<not> truthy (cf_hytaleGameId st1) then
           (st1,
            warnings @ [''[CurseForgeProvider] Cannot search - Hytale game ID not found''],
            Inr (emptyResponse (JNum (num_or (sp_page params) 1))
                   (JNum (num_or (sp_pageSize params) 20)) cf_id))
         else
           (st1, warnings,
            bindE (cf_request st1 up (cf_searchRequest st1 params)) (cf_searchResult st1 params)))"

definition cf_getProject :: "curseforge_state \<Rightarrow> upstream \<Rightarrow> string \<Rightarrow> error + jsval" where
  "cf_getProject st up projectId =
     bindE (cf_request st up \<lparr> req_path = ''/v1/mods/'' @ projectId, req_query = [] \<rparr>)
       (\<lambda>response. bindE (getprop response ''data'') (cf_transformMod st))"

text \<open>One round of the loop of \<^verbatim>\<open>getVersionDependencies\<close>: the inner \<^verbatim>\<open>try\<close> block, whose
  every error leads to the \<^verbatim>\<open>catch\<close> block, which can raise itself.\<close>

definition cf_dependencyTry :: "curseforge_state \<Rightarrow> upstream \<Rightarrow> jsval \<Rightarrow> error + jsval" where
  "cf_dependencyTry st up dep =
     bindE (getprop dep ''modId'')
       (\<lambda>modId.
     bindE (cf_request st up \<lparr> req_path = ''/v1/mods/'' @ jsString modId, req_query = [] \<rparr>)
       (\<lambda>modResponse.
     bindE (getprop modResponse ''data'')
       (\<lambda>data.
     bindE (getprop data ''name'')
       (\<lambda>name.
     Inr (JObj
       [(''projectId'', JStr (jsString modId)),
        (''projectName'', name),
        (''versionId'', JUndefined),
        (''required'', JBool (jsget dep ''relationType'' = JNum 3)),
        (''type'', JStr (if jsget dep ''relationType'' = JNum 3 then ''required''
                         else if jsget dep ''relationType'' = JNum 2 then ''optional''
                         else ''optional''))])))))"

definition cf_dependencyCatch :: "jsval \<Rightarrow> error + jsval" where
  "cf_dependencyCatch dep =
     bindE (getprop dep ''modId'')
       (\<lambda>modId.
     Inr (JObj
       [(''projectId'', JStr (jsString modId)),
        (''projectName'', JStr (''Mod #'' @ jsString modId)),
        (''versionId'', JUndefined),
        (''required'', JBool (jsget dep ''relationType'' = JNum 3)),
        (''type'', JStr (if jsget dep ''relationType'' = JNum 3 then ''required'' else ''optional''))]))"

definition cf_dependency :: "curseforge_state \<Rightarrow> upstream \<Rightarrow> jsval \<Rightarrow> error + jsval" where
  "cf_dependency st up dep =
     (case cf_dependencyTry st up dep of
        Inr d \<Rightarrow> Inr d
      | Inl e \<Rightarrow> cf_dependencyCatch dep)"

text \<open>The body of the outer \<^verbatim>\<open>try\<close> block, and the method: an error raised in the block
  (by the first request, by the iteration, or by a \<^verbatim>\<open>catch\<close> block of the loop) is
  caught and turned into an empty list, whatever had been pushed to \<^verbatim>\<open>results\<close>.\<close>

definition cf_dependenciesBody ::
  "curseforge_state \<Rightarrow> upstream \<Rightarrow> string \<Rightarrow> string \<Rightarrow> error + jsval list" where
  "cf_dependenciesBody st up projectId versionId =
     bindE (cf_request st up
              \<lparr> req_path = ''/v1/mods/'' @ projectId @ ''/files/'' @ versionId, req_query = [] \<rparr>)
       (\<lambda>response.
     bindE (getprop response ''data'')
       (\<lambda>data.
     bindE (getprop data ''dependencies'')
       (\<lambda>dependencies.
     bindE (iterate (jor dependencies (JArr [])))
       (\<lambda>deps. mapE (cf_dependency st up) deps))))"

definition cf_getVersionDependencies ::
  "curseforge_state \<Rightarrow> upstream \<Rightarrow> string \<Rightarrow> string \<Rightarrow> jsval list" where
  "cf_getVersionDependencies st up projectId versionId =
     (case cf_dependenciesBody st up projectId versionId of
        Inl e \<Rightarrow> []
      | Inr ds \<Rightarrow> ds)"

section \<open>Sample data\<close>

text \<open>Two versions and a project that lists only the first of them.\<close>

definition sample_v1 :: UnifiedVersion where
  "sample_v1 =
     \<lparr> uv_id = ''v1'', uv_version = ''1.0.0'', uv_changelog = None, uv_downloads = 12,
       uv_gameVersion = ''0.9'', uv_releaseDate = ''2026-01-01'', uv_fileSize = 2048,
       uv_fileName = ''mod-1.0.0.jar'' \<rparr>"

definition sample_project :: "UnifiedVersion list \<Rightarrow> UnifiedProject" where
  "sample_project vs =
     \<lparr> up_id = ''p1'', up_slug = ''p1'', up_providerId = ''X'', up_title = ''Sample'',
       up_description = ''A sample project'', up_shortDescription = None,
       up_classification = DATA,
       up_author = \<lparr> ua_id = ''a'', ua_username = ''a'', ua_displayName = None, ua_avatarUrl = None \<rparr>,
       up_categories = [], up_tags = None, up_downloads = 12, up_rating = None,
       up_ratingCount = None, up_followers = None, up_iconUrl = Some ''icon.png'',
       up_bannerUrl = None, up_galleryImages = None, up_versions = vs,
       up_latestVersion = (case vs of [] \<Rightarrow> None | v # _ \<Rightarrow> Some v),
       up_gameVersions = [], up_createdAt = ''2026-01-01'', up_updatedAt = ''2026-01-02'',
       up_featured = None,
       up_raw = None \<rparr>"

definition sample_response :: "string \<Rightarrow> int \<Rightarrow> UnifiedSearchResponse" where
  "sample_response pid n =
     \<lparr> sr_projects = [], sr_total = n, sr_page = 2, sr_pageSize = 10, sr_hasMore = True,
       sr_providerId = pid \<rparr>"

text \<open>An adapter whose search outcome, project versions and configuration state are
  given; every other method resolves.\<close>

definition sample_provider ::
  "string \<Rightarrow> bool \<Rightarrow> (error + UnifiedSearchResponse) \<Rightarrow> UnifiedVersion list \<Rightarrow> IModProvider" where
  "sample_provider pid configured found vs =
     \<lparr> provider_id = pid, displayName = pid, iconUrl = None, requiresApiKey = True,
       isConfigured = configured,
       searchProjects = (\<lambda>params. found),
       getProject = (\<lambda>projectId. Inr (sample_project vs)),
       getProjectBySlug = Some (\<lambda>slug. Inr (sample_project vs)),
       getCategories = Inr [],
       getTags = Some (Inr []),
       getVersionDependencies = (\<lambda>projectId versionId. Inr []),
       downloadVersion = (\<lambda>projectId versionId. Inr ''bytes'') \<rparr>"

text \<open>An adapter that serves a project with one version and whose downloads fail.\<close>

definition sample_provider_offline :: IModProvider where
  "sample_provider_offline =
     (sample_provider ''D'' True (Inr (sample_response ''D'' 1)) [sample_v1])
       \<lparr> downloadVersion := (\<lambda>projectId versionId. Inl (Error ''HTTP 503'')) \<rparr>"

definition sample_params :: UnifiedSearchParams where
  "sample_params =
     \<lparr> sp_query = None, sp_classification = None, sp_categories = None, sp_tags = None,
       sp_gameVersion = None, sp_page = Some 2, sp_pageSize = None, sp_sortBy = None,
       sp_sortOrder = None \<rparr>"

text \<open>Three configured adapters, the second of which rejects its search, and one adapter
  that is registered but not configured.\<close>

definition sample_registry :: registry where
  "sample_registry =
     registerProvider (sample_provider ''Y'' False (Inr (sample_response ''Y'' 100)) [])
       (registerProvider (sample_provider ''C'' True (Inr (sample_response ''C'' 5)) [])
         (registerProvider (sample_provider ''B'' True (Inl (Error ''HTTP 500'')) [])
           (registerProvider (sample_provider ''X'' True (Inr (sample_response ''X'' 7)) [sample_v1]) [])))"

definition sample_registry_unconfigured :: registry where
  "sample_registry_unconfigured =
     registerProvider (sample_provider ''Y'' False (Inr (sample_response ''Y'' 100)) [])
       (registerProvider (sample_provider ''X'' False (Inr (sample_response ''X'' 7)) [sample_v1]) [])"

text \<open>Upstream payloads: a Modtale version and project, a CurseForge file and mod, with
  the size and the classification datum left open.\<close>

definition sample_modtale_version :: "jsval \<Rightarrow> jsval" where
  "sample_modtale_version bytes =
     JObj [(''id'', JStr ''v1''), (''version'', JStr ''1.0.0''), (''fileSize'', bytes),
           (''fileName'', JStr ''mod-1.0.0.jar'')]"

definition sample_modtale_project :: "jsval \<Rightarrow> jsval list \<Rightarrow> jsval" where
  "sample_modtale_project classification versions =
     JObj [(''id'', JStr ''p1''), (''title'', JStr ''Sample''), (''author'', JStr ''alice''),
           (''classification'', classification), (''versions'', JArr versions)]"

definition sample_curseforge_file :: "jsval \<Rightarrow> jsval" where
  "sample_curseforge_file bytes =
     JObj [(''id'', JStr ''f1''), (''displayName'', JStr ''Sample 1.0.0''),
           (''fileName'', JStr ''sample-1.0.0.jar''), (''fileDate'', JStr ''2026-01-01''),
           (''fileLength'', bytes), (''downloadCount'', JNum 12),
           (''gameVersions'', JArr [JStr ''0.9''])]"

definition sample_curseforge_mod :: "jsval \<Rightarrow> jsval list \<Rightarrow> jsval" where
  "sample_curseforge_mod classId files =
     JObj [(''id'', JStr ''m1''), (''name'', JStr ''Sample''), (''slug'', JStr ''sample''),
           (''summary'', JStr ''A sample mod''), (''classId'', classId),
           (''authors'', JArr [JObj [(''id'', JStr ''a1''), (''name'', JStr ''alice'')]]),
           (''latestFiles'', JArr files), (''categories'', JArr []),
           (''latestFilesIndexes'', JArr [JObj [(''gameVersion'', JStr ''0.9'')]]),
           (''screenshots'', JArr [])]"

text \<open>Configured adapters; the CurseForge adapter has discovered its game and one class.\<close>

definition sample_modtale_state :: modtale_state where
  "sample_modtale_state = \<lparr> mt_apiKey = Some ''key'' \<rparr>"

definition sample_curseforge_state :: curseforge_state where
  "sample_curseforge_state =
     \<lparr> cf_apiKey = Some ''key'', cf_hytaleGameId = JNum 70216, cf_categories = JArr [],
       cf_classificationMap = [(JNum 6, SAVE)] \<rparr>"

definition sample_page3 :: UnifiedSearchParams where
  "sample_page3 =
     \<lparr> sp_query = Some ''magic'', sp_classification = None, sp_categories = None,
       sp_tags = None, sp_gameVersion = None, sp_page = Some 3, sp_pageSize = Some 10,
       sp_sortBy = None, sp_sortOrder = None \<rparr>"

text \<open>Marketplaces: one that answers every request with the same body, and one for each
  adapter that serves a version with two dependencies.\<close>

definition sample_upstream :: "jsval \<Rightarrow> upstream" where
  "sample_upstream body = (\<lambda>req. Inr body)"

definition sample_modtale_page :: jsval where
  "sample_modtale_page =
     JObj [(''content'', JArr [sample_modtale_project (JStr ''DATA'') []]),
           (''totalElements'', JNum 21), (''number'', JNum 2), (''size'', JNum 10),
           (''last'', JBool True)]"

text \<open>A Modtale reply in the \<^verbatim>\<open>projects\<close> shape for the same request, reporting the
  page index it was asked for.\<close>

definition sample_modtale_projects_reply :: jsval where
  "sample_modtale_projects_reply =
     JObj [(''projects'', JArr [sample_modtale_project (JStr ''DATA'') []]),
           (''total'', JNum 21), (''page'', JNum 2), (''limit'', JNum 10),
           (''hasMore'', JBool False)]"

definition sample_curseforge_page :: jsval where
  "sample_curseforge_page =
     JObj [(''data'', JArr []),
           (''pagination'', JObj [(''index'', JNum 20), (''pageSize'', JNum 10),
                                  (''resultCount'', JNum 1), (''totalCount'', JNum 21)])]"

definition sample_modtale_upstream :: upstream where
  "sample_modtale_upstream =
     (\<lambda>req. if req_path req = ''/projects/p1''
            then Inr (JObj [(''id'', JStr ''p1''),
                            (''versions'', JArr
                               [JObj [(''id'', JStr ''v1''),
                                      (''modIds'', JArr
                                         [JStr ''core'',
                                          JObj [(''modId'', JStr ''extras''),
                                                (''required'', JBool False)]])]])])
            else Inl (Error ''HTTP 404''))"

definition sample_curseforge_upstream :: upstream where
  "sample_curseforge_upstream =
     (\<lambda>req. if req_path req = ''/v1/mods/m1/files/f1''
            then Inr (JObj [(''data'', JObj
                              [(''dependencies'', JArr
                                  [JObj [(''modId'', JStr ''m2''), (''relationType'', JNum 3)],
                                   JObj [(''modId'', JStr ''m3''), (''relationType'', JNum 2)]])])])
            else if req_path req = ''/v1/mods/m2''
            then Inr (JObj [(''data'', JObj [(''name'', JStr ''Core'')])])
            else Inl (Error ''HTTP 404''))"

section \<open>Properties of the registry and the service\<close>

lemma foldl_total: "foldl (\<lambda>sum r. sum + sr_total r) a rs = a + sum_list (map sr_total rs)"
  by (induction rs arbitrary: a) simp_all

lemma sum_searchOne:
  "sum_list (map sr_total (map (searchOne params) ps)) =
   sum_list (map sr_total (List.map_filter
      (\<lambda>p. case searchProjects p params of Inr res \<Rightarrow> Some res | Inl e \<Rightarrow> None) ps))"
  by (induction ps) (simp_all add: List.map_filter_simps searchOne_def split: sum.splits)

lemma results_searchAll:
  "results (snd (searchAll providers params)) = map (searchOne params) (getConfiguredProviders providers)"
  by (simp add: searchAll_def Let_def)

lemma total_searchAll:
  "totalAcrossProviders (snd (searchAll providers params)) =
     sum_list (map sr_total (results (snd (searchAll providers params))))"
  by (simp add: searchAll_def Let_def foldl_total)

text \<open>
  Claim C1. Whatever subset of the configured adapters reject their search,
  \<^verbatim>\<open>searchAll\<close> returns one entry per configured adapter, in the registry's iteration
  order. The entry of an adapter that rejected is the empty response with that adapter's
  id, \<^verbatim>\<open>params.page || 1\<close> and \<^verbatim>\<open>params.pageSize || 50\<close> (the requested values, 1 and 50
  when they are absent or 0), no projects, total 0 and \<^verbatim>\<open>hasMore\<close> false; the entry of an
  adapter that resolved is its own response. \<^verbatim>\<open>searchAll\<close> itself has no failing outcome.
  \<^verbatim>\<open>totalAcrossProviders\<close> is the sum of the entries' totals, which is the sum of the
  totals of the adapters that resolved.
\<close>

theorem searchAll_failure_isolation:
  "length (results (snd (searchAll providers params))) = length (getConfiguredProviders providers)
   \<and> (\<forall>i < length (getConfiguredProviders providers).
        (case searchProjects (getConfiguredProviders providers ! i) params of
           Inl e \<Rightarrow>
             results (snd (searchAll providers params)) ! i =
               \<lparr> sr_projects = [], sr_total = 0,
                 sr_page = num_or (sp_page params) 1,
                 sr_pageSize = num_or (sp_pageSize params) 50,
                 sr_hasMore = False,
                 sr_providerId = provider_id (getConfiguredProviders providers ! i) \<rparr>
         | Inr res \<Rightarrow> results (snd (searchAll providers params)) ! i = res))
   \<and> totalAcrossProviders (snd (searchAll providers params)) =
       sum_list (map sr_total (results (snd (searchAll providers params))))
   \<and> totalAcrossProviders (snd (searchAll providers params)) =
       sum_list (map sr_total (List.map_filter
         (\<lambda>p. case searchProjects p params of Inr res \<Rightarrow> Some res | Inl e \<Rightarrow> None)
         (getConfiguredProviders providers)))"
proof (intro conjI allI impI)
  show "length (results (snd (searchAll providers params))) = length (getConfiguredProviders providers)"
    by (simp add: results_searchAll)
next
  fix i assume "i < length (getConfiguredProviders providers)"
  then show "case searchProjects (getConfiguredProviders providers ! i) params of
           Inl e \<Rightarrow>
             results (snd (searchAll providers params)) ! i =
               \<lparr> sr_projects = [], sr_total = 0,
                 sr_page = num_or (sp_page params) 1,
                 sr_pageSize = num_or (sp_pageSize params) 50,
                 sr_hasMore = False,
                 sr_providerId = provider_id (getConfiguredProviders providers ! i) \<rparr>
         | Inr res \<Rightarrow> results (snd (searchAll providers params)) ! i = res"
    by (simp add: results_searchAll searchOne_def split: sum.splits)
next
  show "totalAcrossProviders (snd (searchAll providers params)) =
       sum_list (map sr_total (results (snd (searchAll providers params))))"
    by (rule total_searchAll)
next
  show "totalAcrossProviders (snd (searchAll providers params)) =
       sum_list (map sr_total (List.map_filter
         (\<lambda>p. case searchProjects p params of Inr res \<Rightarrow> Some res | Inl e \<Rightarrow> None)
         (getConfiguredProviders providers)))"
    by (simp only: total_searchAll results_searchAll sum_searchOne)
qed

lemma sample_configured:
  "getConfiguredProviders sample_registry =
     [sample_provider ''X'' True (Inr (sample_response ''X'' 7)) [sample_v1],
      sample_provider ''B'' True (Inl (Error ''HTTP 500'')) [],
      sample_provider ''C'' True (Inr (sample_response ''C'' 5)) []]"
  by (simp add: getConfiguredProviders_def getAllProviders_def sample_registry_def
      registerProvider_def sample_provider_def)

theorem searchAll_failure_isolation_witness:
  "results (snd (searchAll sample_registry sample_params)) =
     [sample_response ''X'' 7,
      \<lparr> sr_projects = [], sr_total = 0, sr_page = 2, sr_pageSize = 50, sr_hasMore = False,
        sr_providerId = ''B'' \<rparr>,
      sample_response ''C'' 5]
   \<and> totalAcrossProviders (snd (searchAll sample_registry sample_params)) = 12"
  using searchAll_failure_isolation [of sample_registry sample_params]
  by (simp add: searchAll_def searchOne_def sample_configured sample_provider_def
      sample_response_def sample_params_def num_or_def Let_def)


text \<open>
  Claim C10. When no registered adapter is configured, \<^verbatim>\<open>searchAll\<close> returns no results
  and a total of 0, and calls no adapter.
\<close>

theorem searchAll_none_configured:
  "\<forall>p \<in> set (getAllProviders providers). \<not> isConfigured p \<Longrightarrow>
   searchAll providers params = ([], \<lparr> results = [], totalAcrossProviders = 0 \<rparr>)"
proof -
  assume "\<forall>p \<in> set (getAllProviders providers). \<not> isConfigured p"
  then have "getConfiguredProviders providers = []"
    by (simp add: getConfiguredProviders_def filter_empty_conv)
  then show ?thesis
    by (simp add: searchAll_def)
qed

theorem searchAll_none_configured_witness:
  "length (getAllProviders sample_registry_unconfigured) = 2
   \<and> searchAll sample_registry_unconfigured sample_params =
       ([], \<lparr> results = [], totalAcrossProviders = 0 \<rparr>)"
  using searchAll_none_configured [of sample_registry_unconfigured sample_params]
  by (simp add: getAllProviders_def sample_registry_unconfigured_def registerProvider_def
      sample_provider_def)

lemma configuredProvider_unknown:
  "getProvider providers providerId = None \<Longrightarrow>
   configuredProvider providers providerId = Inl (Error (''Provider not found: '' @ providerId))"
  by (simp add: configuredProvider_def)

lemma configuredProvider_unconfigured:
  "getProvider providers providerId = Some p \<Longrightarrow> \<not> isConfigured p \<Longrightarrow>
   configuredProvider providers providerId =
     Inl (Error (''Provider '' @ providerId @ '' is not configured. Please set up the API key.''))"
  by (simp add: configuredProvider_def)

text \<open>
  Claim C6. Each per-provider operation of the service (\<^verbatim>\<open>search\<close>, \<^verbatim>\<open>getProject\<close>,
  \<^verbatim>\<open>getProjectBySlug\<close>, \<^verbatim>\<open>getCategories\<close>, \<^verbatim>\<open>getTags\<close>, \<^verbatim>\<open>getVersionDependencies\<close>,
  \<^verbatim>\<open>downloadVersion\<close>, \<^verbatim>\<open>downloadForInstallation\<close>) rejects when the provider id is not
  registered, and rejects when the provider is registered but not configured; in both
  cases no adapter method has been called.
\<close>

theorem service_precondition:
  "(getProvider providers providerId = None \<longrightarrow>
      service_search providers providerId params =
        ([], Inl (Error (''Provider not found: '' @ providerId)))
    \<and> service_getProject providers providerId projectId =
        ([], Inl (Error (''Provider not found: '' @ providerId)))
    \<and> service_getProjectBySlug providers providerId slug =
        ([], Inl (Error (''Provider not found: '' @ providerId)))
    \<and> service_getCategories providers providerId =
        ([], Inl (Error (''Provider not found: '' @ providerId)))
    \<and> service_getTags providers providerId =
        ([], Inl (Error (''Provider not found: '' @ providerId)))
    \<and> service_getVersionDependencies providers providerId projectId versionId =
        ([], Inl (Error (''Provider not found: '' @ providerId)))
    \<and> service_downloadVersion providers providerId projectId versionId =
        ([], Inl (Error (''Provider not found: '' @ providerId)))
    \<and> downloadForInstallation providers providerId projectId versionId =
        ([], Inl (Error (''Provider not found: '' @ providerId))))
   \<and> (\<forall>p. getProvider providers providerId = Some p \<and> \<not> isConfigured p \<longrightarrow>
      service_search providers providerId params =
        ([], Inl (Error (''Provider '' @ providerId @ '' is not configured. Please set up the API key.'')))
    \<and> service_getProject providers providerId projectId =
        ([], Inl (Error (''Provider '' @ providerId @ '' is not configured. Please set up the API key.'')))
    \<and> service_getProjectBySlug providers providerId slug =
        ([], Inl (Error (''Provider '' @ providerId @ '' is not configured. Please set up the API key.'')))
    \<and> service_getCategories providers providerId =
        ([], Inl (Error (''Provider '' @ providerId @ '' is not configured. Please set up the API key.'')))
    \<and> service_getTags providers providerId =
        ([], Inl (Error (''Provider '' @ providerId @ '' is not configured. Please set up the API key.'')))
    \<and> service_getVersionDependencies providers providerId projectId versionId =
        ([], Inl (Error (''Provider '' @ providerId @ '' is not configured. Please set up the API key.'')))
    \<and> service_downloadVersion providers providerId projectId versionId =
        ([], Inl (Error (''Provider '' @ providerId @ '' is not configured. Please set up the API key.'')))
    \<and> downloadForInstallation providers providerId projectId versionId =
        ([], Inl (Error (''Provider '' @ providerId @ '' is not configured. Please set up the API key.''))))"
proof (intro conjI impI allI)
  assume "getProvider providers providerId = None"
  note u = configuredProvider_unknown [OF this]
  show "service_search providers providerId params =
        ([], Inl (Error (''Provider not found: '' @ providerId)))"
    by (simp add: service_search_def u)
  show "service_getProject providers providerId projectId =
        ([], Inl (Error (''Provider not found: '' @ providerId)))"
    by (simp add: service_getProject_def u)
  show "service_getProjectBySlug providers providerId slug =
        ([], Inl (Error (''Provider not found: '' @ providerId)))"
    by (simp add: service_getProjectBySlug_def u)
  show "service_getCategories providers providerId =
        ([], Inl (Error (''Provider not found: '' @ providerId)))"
    by (simp add: service_getCategories_def u)
  show "service_getTags providers providerId =
        ([], Inl (Error (''Provider not found: '' @ providerId)))"
    by (simp add: service_getTags_def u)
  show "service_getVersionDependencies providers providerId projectId versionId =
        ([], Inl (Error (''Provider not found: '' @ providerId)))"
    by (simp add: service_getVersionDependencies_def u)
  show "service_downloadVersion providers providerId projectId versionId =
        ([], Inl (Error (''Provider not found: '' @ providerId)))"
    by (simp add: service_downloadVersion_def u)
  show "downloadForInstallation providers providerId projectId versionId =
        ([], Inl (Error (''Provider not found: '' @ providerId)))"
    by (simp add: downloadForInstallation_def u)
next
  fix p
  assume "getProvider providers providerId = Some p \<and> \<not> isConfigured p"
  then have u: "configuredProvider providers providerId =
     Inl (Error (''Provider '' @ providerId @ '' is not configured. Please set up the API key.''))"
    by (simp add: configuredProvider_unconfigured)
  show "service_search providers providerId params =
        ([], Inl (Error (''Provider '' @ providerId @ '' is not configured. Please set up the API key.'')))"
    by (simp add: service_search_def u)
  show "service_getProject providers providerId projectId =
        ([], Inl (Error (''Provider '' @ providerId @ '' is not configured. Please set up the API key.'')))"
    by (simp add: service_getProject_def u)
  show "service_getProjectBySlug providers providerId slug =
        ([], Inl (Error (''Provider '' @ providerId @ '' is not configured. Please set up the API key.'')))"
    by (simp add: service_getProjectBySlug_def u)
  show "service_getCategories providers providerId =
        ([], Inl (Error (''Provider '' @ providerId @ '' is not configured. Please set up the API key.'')))"
    by (simp add: service_getCategories_def u)
  show "service_getTags providers providerId =
        ([], Inl (Error (''Provider '' @ providerId @ '' is not configured. Please set up the API key.'')))"
    by (simp add: service_getTags_def u)
  show "service_getVersionDependencies providers providerId projectId versionId =
        ([], Inl (Error (''Provider '' @ providerId @ '' is not configured. Please set up the API key.'')))"
    by (simp add: service_getVersionDependencies_def u)
  show "service_downloadVersion providers providerId projectId versionId =
        ([], Inl (Error (''Provider '' @ providerId @ '' is not configured. Please set up the API key.'')))"
    by (simp add: service_downloadVersion_def u)
  show "downloadForInstallation providers providerId projectId versionId =
        ([], Inl (Error (''Provider '' @ providerId @ '' is not configured. Please set up the API key.'')))"
    by (simp add: downloadForInstallation_def u)
qed

lemma sample_getProvider_Z: "getProvider sample_registry ''Z'' = None"
  by (simp add: getProvider_def sample_registry_def registerProvider_def sample_provider_def)

lemma sample_getProvider_Y:
  "getProvider sample_registry ''Y'' = Some (sample_provider ''Y'' False (Inr (sample_response ''Y'' 100)) [])"
  by (simp add: getProvider_def sample_registry_def registerProvider_def sample_provider_def)

lemma sample_getProvider_X:
  "getProvider sample_registry ''X'' = Some (sample_provider ''X'' True (Inr (sample_response ''X'' 7)) [sample_v1])"
  by (simp add: getProvider_def sample_registry_def registerProvider_def sample_provider_def)

lemma sample_getProvider_C:
  "getProvider sample_registry ''C'' = Some (sample_provider ''C'' True (Inr (sample_response ''C'' 5)) [])"
  by (simp add: getProvider_def sample_registry_def registerProvider_def sample_provider_def)

theorem service_precondition_witness:
  "getProvider sample_registry ''Z'' = None
   \<and> service_search sample_registry ''Z'' sample_params = ([], Inl (Error ''Provider not found: Z''))
   \<and> downloadForInstallation sample_registry ''Z'' ''p1'' ''v1'' = ([], Inl (Error ''Provider not found: Z''))
   \<and> hasProvider sample_registry ''Y''
   \<and> service_search sample_registry ''Y'' sample_params =
       ([], Inl (Error ''Provider Y is not configured. Please set up the API key.''))
   \<and> service_getTags sample_registry ''Y'' =
       ([], Inl (Error ''Provider Y is not configured. Please set up the API key.''))
   \<and> downloadForInstallation sample_registry ''Y'' ''p1'' ''v1'' =
       ([], Inl (Error ''Provider Y is not configured. Please set up the API key.''))"
  using service_precondition [of sample_registry "''Z''" sample_params "''p1''" "''p1''" "''v1''"]
    service_precondition [of sample_registry "''Y''" sample_params "''p1''" "''p1''" "''v1''"]
  by (simp add: sample_getProvider_Z sample_getProvider_Y hasProvider_def getProvider_def [symmetric]
      sample_provider_def)

text \<open>
  Claim C2, as the code has it. On a known, configured provider whose project was
  fetched and whose version list does not hold the requested version id: when the
  project has a \<^verbatim>\<open>latestVersion\<close>, the adapter is asked to download the \<^emph>\<open>requested\<close>
  version id; if that download resolves, the operation resolves and the metadata carries
  the requested version id as \<^verbatim>\<open>versionId\<close> and the latest version's label and file size
  as \<^verbatim>\<open>versionName\<close> and \<^verbatim>\<open>fileSize\<close>; if the download rejects, so does the operation.
  When the project has no \<^verbatim>\<open>latestVersion\<close> either, the operation rejects before any
  download is attempted.
\<close>

theorem downloadForInstallation_fallback:
  assumes "getProvider providers providerId = Some provider"
    and "isConfigured provider"
    and "getProject provider projectId = Inr project"
    and "versionId \<notin> uv_id ` set (up_versions project)"
  shows "(\<forall>latest stream. up_latestVersion project = Some latest
            \<and> downloadVersion provider projectId versionId = Inr stream \<longrightarrow>
          snd (downloadForInstallation providers providerId projectId versionId) =
            Inr (stream,
                 \<lparr> md_providerId = providerId,
                   md_projectId = projectId,
                   md_projectTitle = up_title project,
                   md_projectIconUrl = up_iconUrl project,
                   md_versionId = versionId,
                   md_versionName = uv_version latest,
                   md_classification = up_classification project,
                   md_fileSize = Some (uv_fileSize latest),
                   md_fileHash = None \<rparr>))
       \<and> (\<forall>latest e. up_latestVersion project = Some latest
            \<and> downloadVersion provider projectId versionId = Inl e \<longrightarrow>
          snd (downloadForInstallation providers providerId projectId versionId) = Inl e)
       \<and> (up_latestVersion project = None \<longrightarrow>
          downloadForInstallation providers providerId projectId versionId =
            ([CallGetProject providerId projectId],
             Inl (Error (''Version '' @ versionId @ '' not found for project '' @ projectId))))"
proof -
  have c: "configuredProvider providers providerId = Inr provider"
    using assms(1,2) by (simp add: configuredProvider_def)
  have "find (\<lambda>v. uv_id v = versionId) (up_versions project) = None"
    using assms(4) by (auto simp: find_None_iff)
  then have r: "resolveVersion project versionId = up_latestVersion project"
    by (simp add: resolveVersion_def)
  show ?thesis
    by (simp add: downloadForInstallation_def c r assms(3))
qed

lemma sample_getProvider_D:
  "getProvider (registerProvider sample_provider_offline sample_registry) ''D'' =
     Some sample_provider_offline"
  by (simp add: getProvider_def sample_registry_def registerProvider_def sample_provider_def
      sample_provider_offline_def)

theorem downloadForInstallation_fallback_witness:
  "snd (downloadForInstallation sample_registry ''X'' ''p1'' ''v9'') =
     Inr (''bytes'',
          \<lparr> md_providerId = ''X'', md_projectId = ''p1'', md_projectTitle = ''Sample'',
            md_projectIconUrl = Some ''icon.png'', md_versionId = ''v9'',
            md_versionName = ''1.0.0'', md_classification = DATA, md_fileSize = Some 2048,
            md_fileHash = None \<rparr>)
   \<and> snd (downloadForInstallation (registerProvider sample_provider_offline sample_registry)
            ''D'' ''p1'' ''v9'') = Inl (Error ''HTTP 503'')
   \<and> downloadForInstallation sample_registry ''C'' ''p1'' ''v9'' =
       ([CallGetProject ''C'' ''p1''], Inl (Error ''Version v9 not found for project p1''))"
  using downloadForInstallation_fallback [OF sample_getProvider_X, of "''p1''" "sample_project [sample_v1]" "''v9''"]
    downloadForInstallation_fallback [OF sample_getProvider_D, of "''p1''" "sample_project [sample_v1]" "''v9''"]
    downloadForInstallation_fallback [OF sample_getProvider_C, of "''p1''" "sample_project []" "''v9''"]
  by (simp add: sample_provider_def sample_provider_offline_def sample_project_def sample_v1_def)

text \<open>
  Claim C2 as stated fails: the project lists only version \<^verbatim>\<open>v1\<close> (its latest), the
  request is for \<^verbatim>\<open>v9\<close>, and the metadata returned carries \<^verbatim>\<open>v9\<close>, not the latest
  version's id.
\<close>

theorem downloadForInstallation_latest_id_counterexample:
  "(case snd (downloadForInstallation sample_registry ''X'' ''p1'' ''v9'') of
      Inr (stream, metadata) \<Rightarrow>
        md_versionId metadata = ''v9'' \<and> md_versionId metadata \<noteq> uv_id sample_v1
    | Inl e \<Rightarrow> False)"
  by (simp add: downloadForInstallation_def configuredProvider_def sample_getProvider_X
      resolveVersion_def sample_provider_def sample_project_def sample_v1_def)

section \<open>Properties of the adapters\<close>

lemma bindE_Inr: "bindE x f = Inr y \<longleftrightarrow> (\<exists>v. x = Inr v \<and> f v = Inr y)"
  by (cases x) (simp_all add: bindE_def)

lemma mapE_Inr: "mapE f xs = Inr ys \<Longrightarrow> list_all2 (\<lambda>x y. f x = Inr y) xs ys"
  by (induction xs arbitrary: ys) (auto simp: bindE_Inr)

lemma mapE_Inr_set:
  "mapE f xs = Inr ys \<Longrightarrow> y \<in> set ys \<Longrightarrow> \<exists>x \<in> set xs. f x = Inr y"
  by (induction xs arbitrary: ys) (auto simp: bindE_Inr)

lemma mt_project_fields:
  assumes "mt_transformProject project = Inr u"
  shows "\<exists>vs. jsget u ''versions'' = JArr vs \<and> jsget u ''latestVersion'' = index0 (JArr vs)
           \<and> jsget u ''classification'' = jor (jsget project ''classification'') (JStr ''PLUGIN'')"
proof -
  have nn: "\<not> nullish project"
    using assms by (cases "nullish project") (simp_all add: mt_transformProject_def)
  from assms show ?thesis
    unfolding mt_transformProject_def
    apply (simp only: nn if_False bindE_Inr)
    apply (elim exE conjE)
    apply (simp only: sum.inject)
    apply hypsubst
    apply simp
    done
qed

lemma cf_mod_fields:
  assumes "cf_transformMod st modv = Inr u"
  shows "\<exists>vs. jsget u ''versions'' = JArr vs \<and> jsget u ''latestVersion'' = index0 (JArr vs)
           \<and> jsget u ''classification'' =
               JStr (classification_name (cf_getClassification st (jsget modv ''classId'')))"
proof -
  have nn: "\<not> nullish modv"
    using assms by (cases "nullish modv") (simp_all add: cf_transformMod_def)
  from assms show ?thesis
    unfolding cf_transformMod_def
    apply (simp only: nn if_False bindE_Inr)
    apply (elim exE conjE)
    apply (simp only: sum.inject)
    apply hypsubst
    apply simp
    done
qed

lemma index0_JArr: "index0 (JArr vs) = (case vs of [] \<Rightarrow> JUndefined | v # _ \<Rightarrow> v)"
  by simp

text \<open>
  Claim C5. In every project that \<^verbatim>\<open>ModtaleProvider.transformProject\<close> or
  \<^verbatim>\<open>CurseForgeProvider.transformMod\<close> produces, \<^verbatim>\<open>versions\<close> is an array and
  \<^verbatim>\<open>latestVersion\<close> is its first element when it has one, and \<^verbatim>\<open>undefined\<close> (absent) when
  it is empty.
\<close>

theorem latestVersion_is_first_version:
  "(mt_transformProject project = Inr u \<longrightarrow>
      (\<exists>vs. jsget u ''versions'' = JArr vs
           \<and> jsget u ''latestVersion'' = (case vs of [] \<Rightarrow> JUndefined | v # _ \<Rightarrow> v)))
   \<and> (cf_transformMod st modv = Inr u' \<longrightarrow>
      (\<exists>vs. jsget u' ''versions'' = JArr vs
           \<and> jsget u' ''latestVersion'' = (case vs of [] \<Rightarrow> JUndefined | v # _ \<Rightarrow> v)))"
proof (intro conjI impI)
  assume "mt_transformProject project = Inr u"
  from mt_project_fields [OF this]
  show "\<exists>vs. jsget u ''versions'' = JArr vs
           \<and> jsget u ''latestVersion'' = (case vs of [] \<Rightarrow> JUndefined | v # _ \<Rightarrow> v)"
    by (auto simp only: index0_JArr)
next
  assume "cf_transformMod st modv = Inr u'"
  from cf_mod_fields [OF this]
  show "\<exists>vs. jsget u' ''versions'' = JArr vs
           \<and> jsget u' ''latestVersion'' = (case vs of [] \<Rightarrow> JUndefined | v # _ \<Rightarrow> v)"
    by (auto simp only: index0_JArr)
qed

theorem latestVersion_is_first_version_witness:
  "(case mt_transformProject
           (sample_modtale_project (JStr ''DATA'') [sample_modtale_version (JNum 2048)]) of
      Inr u \<Rightarrow>
        jsget u ''latestVersion'' = index0 (jsget u ''versions'')
        \<and> jsget (jsget u ''latestVersion'') ''id'' = JStr ''v1''
    | Inl e \<Rightarrow> False)
   \<and> (case mt_transformProject (sample_modtale_project (JStr ''DATA'') []) of
      Inr u \<Rightarrow> jsget u ''versions'' = JArr [] \<and> jsget u ''latestVersion'' = JUndefined
    | Inl e \<Rightarrow> False)
   \<and> (case cf_transformMod sample_curseforge_state
           (sample_curseforge_mod (JNum 6) [sample_curseforge_file (JNum 2048)]) of
      Inr u \<Rightarrow>
        jsget u ''latestVersion'' = index0 (jsget u ''versions'')
        \<and> jsget (jsget u ''latestVersion'') ''id'' = JStr ''f1''
    | Inl e \<Rightarrow> False)
   \<and> (case cf_transformMod sample_curseforge_state (sample_curseforge_mod (JNum 6) []) of
      Inr u \<Rightarrow> jsget u ''versions'' = JArr [] \<and> jsget u ''latestVersion'' = JUndefined
    | Inl e \<Rightarrow> False)"
proof -
  let ?p = "sample_modtale_project (JStr ''DATA'') [sample_modtale_version (JNum 2048)]"
  let ?m = "sample_curseforge_mod (JNum 6) [sample_curseforge_file (JNum 2048)]"
  have p: "case mt_transformProject ?p of
             Inr u \<Rightarrow> jsget (index0 (jsget u ''versions'')) ''id'' = JStr ''v1'' | Inl e \<Rightarrow> False"
    by code_simp
  have p0: "case mt_transformProject (sample_modtale_project (JStr ''DATA'') []) of
             Inr u \<Rightarrow> jsget u ''versions'' = JArr [] | Inl e \<Rightarrow> False"
    by code_simp
  have m: "case cf_transformMod sample_curseforge_state ?m of
             Inr u \<Rightarrow> jsget (index0 (jsget u ''versions'')) ''id'' = JStr ''f1'' | Inl e \<Rightarrow> False"
    by code_simp
  have m0: "case cf_transformMod sample_curseforge_state (sample_curseforge_mod (JNum 6) []) of
             Inr u \<Rightarrow> jsget u ''versions'' = JArr [] | Inl e \<Rightarrow> False"
    by code_simp
  obtain u1 where u1: "mt_transformProject ?p = Inr u1"
    and i1: "jsget (index0 (jsget u1 ''versions'')) ''id'' = JStr ''v1''"
    using p by (auto split: sum.splits)
  obtain u2 where u2: "mt_transformProject (sample_modtale_project (JStr ''DATA'') []) = Inr u2"
    and i2: "jsget u2 ''versions'' = JArr []"
    using p0 by (auto split: sum.splits)
  obtain u3 where u3: "cf_transformMod sample_curseforge_state ?m = Inr u3"
    and i3: "jsget (index0 (jsget u3 ''versions'')) ''id'' = JStr ''f1''"
    using m by (auto split: sum.splits)
  obtain u4 where u4: "cf_transformMod sample_curseforge_state (sample_curseforge_mod (JNum 6) []) = Inr u4"
    and i4: "jsget u4 ''versions'' = JArr []"
    using m0 by (auto split: sum.splits)
  from latestVersion_is_first_version [of ?p u1 sample_curseforge_state ?m u3] u1 u3
  obtain vs1 vs3 where
    v1: "jsget u1 ''versions'' = JArr vs1"
      "jsget u1 ''latestVersion'' = (case vs1 of [] \<Rightarrow> JUndefined | v # _ \<Rightarrow> v)"
    and v3: "jsget u3 ''versions'' = JArr vs3"
      "jsget u3 ''latestVersion'' = (case vs3 of [] \<Rightarrow> JUndefined | v # _ \<Rightarrow> v)"
    by blast
  from latestVersion_is_first_version [of "sample_modtale_project (JStr ''DATA'') []" u2
        sample_curseforge_state "sample_curseforge_mod (JNum 6) []" u4] u2 u4
  obtain vs2 vs4 where
    v2: "jsget u2 ''versions'' = JArr vs2"
      "jsget u2 ''latestVersion'' = (case vs2 of [] \<Rightarrow> JUndefined | v # _ \<Rightarrow> v)"
    and v4: "jsget u4 ''versions'' = JArr vs4"
      "jsget u4 ''latestVersion'' = (case vs4 of [] \<Rightarrow> JUndefined | v # _ \<Rightarrow> v)"
    by blast
  have l1: "jsget u1 ''latestVersion'' = index0 (jsget u1 ''versions'')"
    and l3: "jsget u3 ''latestVersion'' = index0 (jsget u3 ''versions'')"
    using v1 v3 by simp_all
  have l2: "jsget u2 ''latestVersion'' = JUndefined"
    and l4: "jsget u4 ''latestVersion'' = JUndefined"
    using v2 v4 i2 i4 by simp_all
  show ?thesis
    by (simp add: u1 u2 u3 u4 l1 l3 l2 l4 i1 i2 i3 i4)
qed

lemma classification_name_cases:
  "JStr (classification_name c) \<in> {JStr ''PLUGIN'', JStr ''DATA'', JStr ''ART'', JStr ''SAVE'', JStr ''MODPACK''}"
  by (cases c) (simp_all add: classification_name_def)

text \<open>
  Claim C3, as the code has it. The Modtale adapter hands the upstream \<^verbatim>\<open>classification\<close>
  on unchanged whenever it is truthy (the cast to \<^verbatim>\<open>UnifiedClassification\<close> checks
  nothing), and puts \<^verbatim>\<open>PLUGIN\<close> when it is absent or falsy; so its classification is one
  of the five values exactly when the upstream datum is truthy and one of them, or absent.
  The CurseForge adapter always produces one of the five values, and \<^verbatim>\<open>PLUGIN\<close> when the
  class id is absent, falsy, or not in its classification map.
\<close>

theorem classification_of_transformed_project:
  "(mt_transformProject project = Inr u \<longrightarrow>
      jsget u ''classification'' =
        (if truthy (jsget project ''classification'') then jsget project ''classification''
         else JStr ''PLUGIN''))
   \<and> (cf_transformMod st modv = Inr u' \<longrightarrow>
      jsget u' ''classification'' \<in>
        {JStr ''PLUGIN'', JStr ''DATA'', JStr ''ART'', JStr ''SAVE'', JStr ''MODPACK''}
      \<and> (\<not> truthy (jsget modv ''classId'')
           \<or> cmap_get (cf_classificationMap st) (jsget modv ''classId'') = None \<longrightarrow>
         jsget u' ''classification'' = JStr ''PLUGIN''))"
proof (intro conjI impI)
  assume "mt_transformProject project = Inr u"
  from mt_project_fields [OF this]
  show "jsget u ''classification'' =
        (if truthy (jsget project ''classification'') then jsget project ''classification''
         else JStr ''PLUGIN'')"
    by (auto simp: jor_def)
next
  assume a: "cf_transformMod st modv = Inr u'"
  from cf_mod_fields [OF a]
  show "jsget u' ''classification'' \<in>
        {JStr ''PLUGIN'', JStr ''DATA'', JStr ''ART'', JStr ''SAVE'', JStr ''MODPACK''}"
    using classification_name_cases [of "cf_getClassification st (jsget modv ''classId'')"]
    by auto
  assume "\<not> truthy (jsget modv ''classId'')
           \<or> cmap_get (cf_classificationMap st) (jsget modv ''classId'') = None"
  then have "cf_getClassification st (jsget modv ''classId'') = PLUGIN"
    by (auto simp: cf_getClassification_def)
  with cf_mod_fields [OF a]
  show "jsget u' ''classification'' = JStr ''PLUGIN''"
    by (auto simp: classification_name_def)
qed

theorem classification_of_transformed_project_witness:
  "(case mt_transformProject (sample_modtale_project (JStr ''DATA'') []) of
      Inr u \<Rightarrow> jsget u ''classification'' = JStr ''DATA'' | Inl e \<Rightarrow> False)
   \<and> (case mt_transformProject (sample_modtale_project JUndefined []) of
      Inr u \<Rightarrow> jsget u ''classification'' = JStr ''PLUGIN'' | Inl e \<Rightarrow> False)
   \<and> (case cf_transformMod sample_curseforge_state (sample_curseforge_mod (JNum 6) []) of
      Inr u \<Rightarrow> jsget u ''classification'' = JStr ''SAVE'' | Inl e \<Rightarrow> False)
   \<and> (case cf_transformMod sample_curseforge_state (sample_curseforge_mod (JNum 7) []) of
      Inr u \<Rightarrow> jsget u ''classification'' = JStr ''PLUGIN'' | Inl e \<Rightarrow> False)"
proof -
  have a: "\<not> isl (mt_transformProject (sample_modtale_project (JStr ''DATA'') []))"
    by code_simp
  have b: "\<not> isl (mt_transformProject (sample_modtale_project JUndefined []))"
    by code_simp
  have c: "\<not> isl (cf_transformMod sample_curseforge_state (sample_curseforge_mod (JNum 6) []))"
    by code_simp
  have d: "\<not> isl (cf_transformMod sample_curseforge_state (sample_curseforge_mod (JNum 7) []))"
    by code_simp
  have e: "jsget (sample_curseforge_mod (JNum 6) []) ''classId'' = JNum 6"
     "jsget (sample_curseforge_mod (JNum 7) []) ''classId'' = JNum 7"
     "jsget (sample_modtale_project (JStr ''DATA'') []) ''classification'' = JStr ''DATA''"
     "jsget (sample_modtale_project JUndefined []) ''classification'' = JUndefined"
    by (simp_all add: sample_curseforge_mod_def sample_modtale_project_def)
  have f: "cmap_get (cf_classificationMap sample_curseforge_state) (JNum 7) = None"
    by (simp add: sample_curseforge_state_def sameValueZero_def)
  have g: "cf_getClassification sample_curseforge_state (JNum 6) = SAVE"
    by (simp add: cf_getClassification_def sample_curseforge_state_def sameValueZero_def)
  show ?thesis
    using a b c d
      classification_of_transformed_project
        [of "sample_modtale_project (JStr ''DATA'') []" _ sample_curseforge_state
            "sample_curseforge_mod (JNum 7) []"]
      classification_of_transformed_project
        [of "sample_modtale_project JUndefined []" _ sample_curseforge_state
            "sample_curseforge_mod (JNum 6) []"]
      cf_mod_fields [of sample_curseforge_state "sample_curseforge_mod (JNum 6) []"]
    by (auto simp: e f g classification_name_def split: sum.splits)
qed

text \<open>
  Claim C3 as stated fails: a Modtale project whose upstream classification is the
  unrecognized \<^verbatim>\<open>LIBRARY\<close> is transformed into a project classified \<^verbatim>\<open>LIBRARY\<close>.
\<close>

theorem classification_passthrough_counterexample:
  "(case mt_transformProject (sample_modtale_project (JStr ''LIBRARY'') []) of
      Inr u \<Rightarrow>
        jsget u ''classification'' = JStr ''LIBRARY''
        \<and> jsget u ''classification'' \<notin>
            {JStr ''PLUGIN'', JStr ''DATA'', JStr ''ART'', JStr ''SAVE'', JStr ''MODPACK''}
    | Inl e \<Rightarrow> False)"
  by code_simp

lemma mt_version_fileSize:
  assumes "mt_transformVersion version = Inr v"
  shows "jsget v ''fileSize'' =
           jsNumber (jor (jor (jsget version ''fileSize'') (jsget version ''size'')) (JNum 0))"
proof -
  have nn: "\<not> nullish version"
    using assms by (cases "nullish version") (simp_all add: mt_transformVersion_def)
  from assms show ?thesis
    unfolding mt_transformVersion_def
    apply (simp only: nn if_False sum.inject)
    apply hypsubst
    apply simp
    done
qed

lemma cf_file_fileSize:
  assumes "cf_transformFile file = Inr v"
  shows "jsget v ''fileSize'' = jsget file ''fileLength''"
proof -
  have nn: "\<not> nullish file" "\<not> nullish (jsget file ''gameVersions'')"
    using assms by (auto simp: cf_transformFile_def split: if_splits)
  from assms show ?thesis
    unfolding cf_transformFile_def
    apply (simp only: nn if_False sum.inject)
    apply hypsubst
    apply simp
    done
qed

text \<open>
  Claim C9, as the code has it. Neither transform checks the range of the size. The
  Modtale adapter's \<^verbatim>\<open>fileSize\<close> is \<^verbatim>\<open>Number(version.fileSize || version.size || 0)\<close>, and
  the CurseForge adapter's is \<^verbatim>\<open>file.fileLength\<close> as received; when that datum is a
  number \<open>n\<close>, \<^verbatim>\<open>fileSize\<close> is a number greater than or equal to 0 exactly when \<open>n\<close> is (for
  Modtale it then is \<open>n\<close> itself, and 0 when the payload has neither field).
\<close>

theorem fileSize_follows_upstream:
  "(mt_transformVersion version = Inr v \<longrightarrow>
      jsget v ''fileSize'' =
        jsNumber (jor (jor (jsget version ''fileSize'') (jsget version ''size'')) (JNum 0))
      \<and> (\<forall>n. jor (jor (jsget version ''fileSize'') (jsget version ''size'')) (JNum 0) = JNum n \<longrightarrow>
            jsget v ''fileSize'' = JNum n \<and> (nonneg_number (jsget v ''fileSize'') \<longleftrightarrow> 0 \<le> n)))
   \<and> (cf_transformFile file = Inr v' \<longrightarrow>
      jsget v' ''fileSize'' = jsget file ''fileLength''
      \<and> (\<forall>n. jsget file ''fileLength'' = JNum n \<longrightarrow>
            (nonneg_number (jsget v' ''fileSize'') \<longleftrightarrow> 0 \<le> n)))"
proof (intro conjI impI allI)
  assume a: "mt_transformVersion version = Inr v"
  show s: "jsget v ''fileSize'' =
        jsNumber (jor (jor (jsget version ''fileSize'') (jsget version ''size'')) (JNum 0))"
    by (rule mt_version_fileSize [OF a])
  fix n
  assume n: "jor (jor (jsget version ''fileSize'') (jsget version ''size'')) (JNum 0) = JNum n"
  show "jsget v ''fileSize'' = JNum n"
    by (simp add: s n)
  then show "nonneg_number (jsget v ''fileSize'') \<longleftrightarrow> 0 \<le> n"
    by (simp add: nonneg_number_def)
next
  assume a: "cf_transformFile file = Inr v'"
  show s: "jsget v' ''fileSize'' = jsget file ''fileLength''"
    by (rule cf_file_fileSize [OF a])
  fix n
  assume "jsget file ''fileLength'' = JNum n"
  then show "nonneg_number (jsget v' ''fileSize'') \<longleftrightarrow> 0 \<le> n"
    by (simp add: s nonneg_number_def)
qed

theorem fileSize_follows_upstream_witness:
  "(case mt_transformVersion (sample_modtale_version (JNum 2048)) of
      Inr v \<Rightarrow> jsget v ''fileSize'' = JNum 2048 \<and> nonneg_number (jsget v ''fileSize'')
    | Inl e \<Rightarrow> False)
   \<and> (case mt_transformVersion (sample_modtale_version JUndefined) of
      Inr v \<Rightarrow> jsget v ''fileSize'' = JNum 0 \<and> nonneg_number (jsget v ''fileSize'')
    | Inl e \<Rightarrow> False)
   \<and> (case cf_transformFile (sample_curseforge_file (JNum 2048)) of
      Inr v \<Rightarrow> jsget v ''fileSize'' = JNum 2048 \<and> nonneg_number (jsget v ''fileSize'')
    | Inl e \<Rightarrow> False)"
proof -
  obtain v1 where v1: "mt_transformVersion (sample_modtale_version (JNum 2048)) = Inr v1"
    by (simp add: mt_transformVersion_def sample_modtale_version_def)
  obtain v2 where v2: "mt_transformVersion (sample_modtale_version JUndefined) = Inr v2"
    by (simp add: mt_transformVersion_def sample_modtale_version_def)
  obtain v3 where v3: "cf_transformFile (sample_curseforge_file (JNum 2048)) = Inr v3"
    by (simp add: cf_transformFile_def sample_curseforge_file_def)
  have d1: "jor (jor (jsget (sample_modtale_version (JNum 2048)) ''fileSize'')
                     (jsget (sample_modtale_version (JNum 2048)) ''size'')) (JNum 0) = JNum 2048"
    by (simp add: sample_modtale_version_def jor_def)
  have d2: "jor (jor (jsget (sample_modtale_version JUndefined) ''fileSize'')
                     (jsget (sample_modtale_version JUndefined) ''size'')) (JNum 0) = JNum 0"
    by (simp add: sample_modtale_version_def jor_def)
  have d3: "jsget (sample_curseforge_file (JNum 2048)) ''fileLength'' = JNum 2048"
    by (simp add: sample_curseforge_file_def)
  show ?thesis
    using fileSize_follows_upstream [of "sample_modtale_version (JNum 2048)" v1
        "sample_curseforge_file (JNum 2048)" v3]
      fileSize_follows_upstream [of "sample_modtale_version JUndefined" v2
        "sample_curseforge_file (JNum 2048)" v3]
    by (simp add: v1 v2 v3 d1 d2 d3 nonneg_number_def)
qed

text \<open>
  Claim C9 as stated fails: an upstream size of -1 gives a \<^verbatim>\<open>fileSize\<close> of -1 in both
  adapters, and a Modtale size that is the string \<^verbatim>\<open>big\<close> gives \<^verbatim>\<open>NaN\<close>.
\<close>

theorem fileSize_negative_counterexample:
  "(case mt_transformVersion (sample_modtale_version (JNum (- 1))) of
      Inr v \<Rightarrow> jsget v ''fileSize'' = JNum (- 1) \<and> \<not> nonneg_number (jsget v ''fileSize'')
    | Inl e \<Rightarrow> False)
   \<and> (case mt_transformVersion (sample_modtale_version (JStr ''big'')) of
      Inr v \<Rightarrow> jsget v ''fileSize'' = JNaN \<and> \<not> nonneg_number (jsget v ''fileSize'')
    | Inl e \<Rightarrow> False)
   \<and> (case cf_transformFile (sample_curseforge_file (JNum (- 1))) of
      Inr v \<Rightarrow> jsget v ''fileSize'' = JNum (- 1) \<and> \<not> nonneg_number (jsget v ''fileSize'')
    | Inl e \<Rightarrow> False)"
  by code_simp

lemma mt_dependency_required:
  assumes "mt_transformDependency dep = Inr d"
  shows "\<exists>b. jsget d ''required'' = JBool b \<and> (b \<longleftrightarrow> jsget d ''type'' = JStr ''required'')"
  using assms unfolding mt_transformDependency_def
  by (cases dep) (auto split: if_splits)

lemma cf_dependency_required:
  assumes "cf_dependency st up dep = Inr d"
  shows "\<exists>b. jsget d ''required'' = JBool b \<and> (b \<longleftrightarrow> jsget d ''type'' = JStr ''required'')"
proof (cases "cf_dependencyTry st up dep")
  case (Inr d')
  with assms have "cf_dependencyTry st up dep = Inr d"
    by (simp add: cf_dependency_def)
  then show ?thesis
    unfolding cf_dependencyTry_def by (auto simp: bindE_Inr)
next
  case (Inl e)
  with assms have "cf_dependencyCatch dep = Inr d"
    by (simp add: cf_dependency_def)
  then show ?thesis
    unfolding cf_dependencyCatch_def by (auto simp: bindE_Inr)
qed

lemma mt_dependencies_elements:
  assumes "mt_dependenciesBody st up projectId versionId = Inr (ws, ds)" and "d \<in> set ds"
  shows "\<exists>dep. mt_transformDependency dep = Inr d"
  using assms unfolding mt_dependenciesBody_def
  by (auto simp: bindE_Inr Let_def split: if_splits jsval.splits dest: mapE_Inr_set)

lemma cf_dependencies_elements:
  assumes "cf_dependenciesBody st up projectId versionId = Inr ds" and "d \<in> set ds"
  shows "\<exists>dep. cf_dependency st up dep = Inr d"
  using assms unfolding cf_dependenciesBody_def
  by (auto simp: bindE_Inr dest: mapE_Inr_set)

text \<open>
  Claim C8. Every dependency that \<^verbatim>\<open>getVersionDependencies\<close> of either adapter returns
  (a string dependency or an object dependency of Modtale; a CurseForge dependency whose
  name was resolved or not) has a boolean \<^verbatim>\<open>required\<close> that is true if and only if its
  \<^verbatim>\<open>type\<close> is \<^verbatim>\<open>'required'\<close>.
\<close>

theorem dependency_required_iff_type:
  "(\<forall>d \<in> set (snd (mt_getVersionDependencies st up projectId versionId)).
      \<exists>b. jsget d ''required'' = JBool b \<and> (b \<longleftrightarrow> jsget d ''type'' = JStr ''required''))
   \<and> (\<forall>d \<in> set (cf_getVersionDependencies st' up' projectId' versionId').
      \<exists>b. jsget d ''required'' = JBool b \<and> (b \<longleftrightarrow> jsget d ''type'' = JStr ''required''))"
proof (intro conjI ballI)
  fix d
  assume d: "d \<in> set (snd (mt_getVersionDependencies st up projectId versionId))"
  then obtain ws ds where "mt_dependenciesBody st up projectId versionId = Inr (ws, ds)" "d \<in> set ds"
    by (cases "mt_dependenciesBody st up projectId versionId")
      (auto simp: mt_getVersionDependencies_def)
  from mt_dependencies_elements [OF this] obtain dep where "mt_transformDependency dep = Inr d" ..
  then show "\<exists>b. jsget d ''required'' = JBool b \<and> (b \<longleftrightarrow> jsget d ''type'' = JStr ''required'')"
    by (rule mt_dependency_required)
next
  fix d
  assume d: "d \<in> set (cf_getVersionDependencies st' up' projectId' versionId')"
  then obtain ds where "cf_dependenciesBody st' up' projectId' versionId' = Inr ds" "d \<in> set ds"
    by (cases "cf_dependenciesBody st' up' projectId' versionId'")
      (auto simp: cf_getVersionDependencies_def)
  from cf_dependencies_elements [OF this] obtain dep where "cf_dependency st' up' dep = Inr d" ..
  then show "\<exists>b. jsget d ''required'' = JBool b \<and> (b \<longleftrightarrow> jsget d ''type'' = JStr ''required'')"
    by (rule cf_dependency_required)
qed

theorem dependency_required_iff_type_witness:
  "map (\<lambda>d. (jsget d ''projectId'', jsget d ''required'', jsget d ''type''))
     (snd (mt_getVersionDependencies sample_modtale_state sample_modtale_upstream ''p1'' ''v1'')) =
     [(JStr ''core'', JBool True, JStr ''required''),
      (JStr ''extras'', JBool False, JStr ''optional'')]
   \<and> map (\<lambda>d. (jsget d ''projectName'', jsget d ''required'', jsget d ''type''))
     (cf_getVersionDependencies sample_curseforge_state sample_curseforge_upstream ''m1'' ''f1'') =
     [(JStr ''Core'', JBool True, JStr ''required''),
      (JStr ''Mod #m3'', JBool False, JStr ''optional'')]"
proof -
  have e: "map (\<lambda>d. (jsget d ''projectId'', jsget d ''required'', jsget d ''type''))
     (snd (mt_getVersionDependencies sample_modtale_state sample_modtale_upstream ''p1'' ''v1'')) =
     [(JStr ''core'', JBool True, JStr ''required''),
      (JStr ''extras'', JBool False, JStr ''optional'')]"
    by code_simp
  have f: "map (\<lambda>d. (jsget d ''projectName'', jsget d ''required'', jsget d ''type''))
     (cf_getVersionDependencies sample_curseforge_state sample_curseforge_upstream ''m1'' ''f1'') =
     [(JStr ''Core'', JBool True, JStr ''required''),
      (JStr ''Mod #m3'', JBool False, JStr ''optional'')]"
    by code_simp
  show ?thesis
    using dependency_required_iff_type [of sample_modtale_state sample_modtale_upstream "''p1''" "''v1''"
        sample_curseforge_state sample_curseforge_upstream "''m1''" "''f1''"] e f
    by simp
qed

lemma jsget_page_content:
  assumes "mt_searchResult params response = (ws, Inr r)"
    and "isObject response" and "hasKey ''content'' response"
  shows "jsget r ''page'' = jsAdd (jsNumber (jor (jsget response ''number'') (JNum 0))) (JNum 1)"
proof -
  have t: "truthy response"
    using assms(2) by (cases response) simp_all
  from assms(1) show ?thesis
    unfolding mt_searchResult_def
    apply (simp only: t assms(2,3) simp_thms if_True prod.inject bindE_Inr)
    apply (elim exE conjE)
    apply (simp only: sum.inject)
    apply hypsubst
    apply simp
    done
qed

lemma jsget_page_array:
  assumes "mt_searchResult params response = (ws, Inr r)" and "isArray response"
  shows "jsget r ''page'' = JNum (num_or (sp_page params) 1)"
proof -
  have t: "\<not> hasKey ''content'' response"
    using assms(2) by (cases response) simp_all
  from assms(1) show ?thesis
    unfolding mt_searchResult_def
    apply (simp only: t assms(2) simp_thms if_True if_False prod.inject bindE_Inr)
    apply (elim exE conjE)
    apply (simp only: sum.inject)
    apply hypsubst
    apply simp
    done
qed

lemma jsget_page_projects:
  assumes "mt_searchResult params response = (ws, Inr r)"
    and "isObject response" and "\<not> hasKey ''content'' response" and "\<not> isArray response"
    and "hasKey ''projects'' response"
  shows "jsget r ''page'' =
           jsNumber (jor (jor (jsget response ''page'') (optNum (sp_page params))) (JNum 1))"
proof -
  have t: "truthy response"
    using assms(2) by (cases response) simp_all
  from assms(1) show ?thesis
    unfolding mt_searchResult_def
    apply (simp only: t assms(2,3,4,5) simp_thms if_True if_False prod.inject bindE_Inr)
    apply (elim exE conjE)
    apply (simp only: sum.inject)
    apply hypsubst
    apply simp
    done
qed

lemma jsget_page_unrecognized:
  assumes "mt_searchResult params response = (ws, Inr r)"
    and "\<not> hasKey ''content'' response" and "\<not> isArray response"
    and "\<not> hasKey ''projects'' response"
  shows "jsget r ''page'' = JNum (num_or (sp_page params) 1)"
  using assms(1) unfolding mt_searchResult_def
  by (simp only: assms(2,3,4) simp_thms if_False prod.inject sum.inject) (auto simp: emptyResponse_def)

lemma cf_searchResult_page:
  assumes "cf_searchResult st params response = Inr r"
  shows "jsget r ''page'' = JNum (num_nullish (sp_page params) 1)"
proof -
  from assms show ?thesis
    unfolding cf_searchResult_def Let_def
    apply (simp only: bindE_Inr)
    apply (elim exE conjE)
    apply (cases "nullish (jsget response ''pagination'')")
     apply (simp_all only: if_True if_False sum.inject sum.distinct)
    apply hypsubst
    apply simp
    done
qed

lemma cf_searchProjects_page:
  assumes "snd (snd (cf_searchProjects up st params)) = Inr r" and "sp_page params = Some 3"
  shows "jsget r ''page'' = JNum 3"
proof (cases "\<not> truthy (cf_hytaleGameId st)")
  case False
  with assms(1) obtain response where
    "cf_searchResult st params response = Inr r"
    by (auto simp: cf_searchProjects_def bindE_Inr)
  from cf_searchResult_page [OF this] show ?thesis
    by (simp add: assms(2) num_nullish_def)
next
  case True
  obtain st1 ws where d: "cf_discoverHytaleGame up st = (st1, ws)"
    by (cases "cf_discoverHytaleGame up st")
  show ?thesis
  proof (cases "truthy (cf_hytaleGameId st1)")
    case False
    with assms(1) True d have "r = emptyResponse (JNum (num_or (sp_page params) 1))
                   (JNum (num_or (sp_pageSize params) 20)) cf_id"
      by (simp add: cf_searchProjects_def)
    then show ?thesis
      by (simp add: emptyResponse_def assms(2) num_or_def)
  next
    case t: True
    with assms(1) True d obtain response where
      "cf_searchResult st1 params response = Inr r"
      by (auto simp: cf_searchProjects_def bindE_Inr)
    from cf_searchResult_page [OF this] show ?thesis
      by (simp add: assms(2) num_nullish_def)
  qed
qed

lemma int_to_string_small:
  "int_to_string 2 = ''2''" "int_to_string 10 = ''10''" "int_to_string 20 = ''20''"
  by (simp_all add: int_to_string_def nat_digits.simps digit_char_def)

text \<open>
  Pagination for a search with page 3 and page size 10. The Modtale request carries
  \<^verbatim>\<open>page=2\<close> and \<^verbatim>\<open>size=10\<close> and the CurseForge request \<^verbatim>\<open>index=20\<close> and \<^verbatim>\<open>pageSize=10\<close>,
  whatever the other parameters and the adapter's state. The Modtale adapter decodes the
  page index 2 of a paginated envelope to \<^verbatim>\<open>page\<close> 3, and answers 3 for a bare array and
  for an unrecognized reply; for a reply in the \<^verbatim>\<open>projects\<close> shape it returns the page the
  reply reports as it is, and 3 only when the reply reports none. Every response of the
  CurseForge adapter echoes the requested page 3.
\<close>

lemma pagination_page3_size10:
  assumes "sp_page params = Some 3" and "sp_pageSize params = Some 10"
  shows "map_of (req_query (mt_searchRequest params)) ''page'' = Some ''2''
       \<and> map_of (req_query (mt_searchRequest params)) ''size'' = Some ''10''
       \<and> map_of (req_query (cf_searchRequest st params)) ''index'' = Some ''20''
       \<and> map_of (req_query (cf_searchRequest st params)) ''pageSize'' = Some ''10''
       \<and> (\<forall>mst up response r.
            mt_isConfigured mst \<and> up (mt_searchRequest params) = Inr response
            \<and> isObject response \<and> hasKey ''content'' response
            \<and> jsget response ''number'' = JNum 2
            \<and> snd (mt_searchProjects mst up params) = Inr r \<longrightarrow>
            jsget r ''page'' = JNum 3)
       \<and> (\<forall>mst up response r.
            mt_isConfigured mst \<and> up (mt_searchRequest params) = Inr response
            \<and> \<not> hasKey ''content'' response
            \<and> (isArray response \<or> \<not> hasKey ''projects'' response)
            \<and> snd (mt_searchProjects mst up params) = Inr r \<longrightarrow>
            jsget r ''page'' = JNum 3)
       \<and> (\<forall>mst up response r.
            mt_isConfigured mst \<and> up (mt_searchRequest params) = Inr response
            \<and> \<not> hasKey ''content'' response \<and> \<not> isArray response
            \<and> hasKey ''projects'' response
            \<and> snd (mt_searchProjects mst up params) = Inr r \<longrightarrow>
            jsget r ''page'' = jsNumber (jor (jsget response ''page'') (JNum 3)))
       \<and> (\<forall>up r. snd (snd (cf_searchProjects up st params)) = Inr r \<longrightarrow> jsget r ''page'' = JNum 3)"
proof (intro conjI allI impI)
  show "map_of (req_query (mt_searchRequest params)) ''page'' = Some ''2''"
    by (simp add: mt_searchRequest_def assms num_nullish_def int_to_string_small map_add_def
        split: option.splits)
  show "map_of (req_query (mt_searchRequest params)) ''size'' = Some ''10''"
    by (simp add: mt_searchRequest_def assms num_nullish_def int_to_string_small map_add_def
        split: option.splits)
  show "map_of (req_query (cf_searchRequest st params)) ''index'' = Some ''20''"
    by (simp add: cf_searchRequest_def assms num_nullish_def int_to_string_small map_add_def
        split: option.splits)
  show "map_of (req_query (cf_searchRequest st params)) ''pageSize'' = Some ''10''"
    by (simp add: cf_searchRequest_def assms num_nullish_def int_to_string_small map_add_def
        split: option.splits)
next
  fix mst up response r
  assume a: "mt_isConfigured mst \<and> up (mt_searchRequest params) = Inr response
            \<and> isObject response \<and> hasKey ''content'' response
            \<and> jsget response ''number'' = JNum 2
            \<and> snd (mt_searchProjects mst up params) = Inr r"
  then have "snd (mt_searchResult params response) = Inr r"
    by (clarsimp simp: mt_searchProjects_def mt_request_def)
  then obtain ws where "mt_searchResult params response = (ws, Inr r)"
    by (cases "mt_searchResult params response") simp
  from jsget_page_content [OF this] a show "jsget r ''page'' = JNum 3"
    by (simp add: jor_def jsAdd_def)
next
  fix mst up response r
  assume a: "mt_isConfigured mst \<and> up (mt_searchRequest params) = Inr response
            \<and> \<not> hasKey ''content'' response
            \<and> (isArray response \<or> \<not> hasKey ''projects'' response)
            \<and> snd (mt_searchProjects mst up params) = Inr r"
  then have "snd (mt_searchResult params response) = Inr r"
    by (clarsimp simp: mt_searchProjects_def mt_request_def)
  then obtain ws where w: "mt_searchResult params response = (ws, Inr r)"
    by (cases "mt_searchResult params response") simp
  from a have c: "\<not> hasKey ''content'' response"
    by simp
  show "jsget r ''page'' = JNum 3"
  proof (cases "isArray response")
    case True
    from jsget_page_array [OF w this] show ?thesis
      by (simp add: assms num_or_def)
  next
    case False
    with a have "\<not> hasKey ''projects'' response"
      by simp
    from jsget_page_unrecognized [OF w c False this] show ?thesis
      by (simp add: assms num_or_def)
  qed
next
  fix mst up response r
  assume a: "mt_isConfigured mst \<and> up (mt_searchRequest params) = Inr response
            \<and> \<not> hasKey ''content'' response \<and> \<not> isArray response
            \<and> hasKey ''projects'' response
            \<and> snd (mt_searchProjects mst up params) = Inr r"
  then have "snd (mt_searchResult params response) = Inr r"
    by (clarsimp simp: mt_searchProjects_def mt_request_def)
  then obtain ws where w: "mt_searchResult params response = (ws, Inr r)"
    by (cases "mt_searchResult params response") simp
  from a have c: "\<not> hasKey ''content'' response" and n: "\<not> isArray response"
    and p: "hasKey ''projects'' response"
    by simp_all
  from p n have o: "isObject response"
    by (cases response) simp_all
  from jsget_page_projects [OF w o c n p]
  show "jsget r ''page'' = jsNumber (jor (jsget response ''page'') (JNum 3))"
    by (simp add: assms jor_def optNum_def)
next
  fix up r
  assume "snd (snd (cf_searchProjects up st params)) = Inr r"
  from cf_searchProjects_page [OF this assms(1)] show "jsget r ''page'' = JNum 3" .
qed

text \<open>
  Claim C4. For a search with page 3 and page size 10 the Modtale request carries the
  0-indexed page 2 (offset 20), and the response's \<^verbatim>\<open>page\<close>, decoded from the index the
  reply reports, should be 3. The adapter decodes the index of a paginated envelope
  (\<^verbatim>\<open>Number(response.number || 0) + 1\<close>, commented as the conversion to 1-indexed
  pages), but not the page of a
  reply in the \<^verbatim>\<open>projects\<close> shape (\<^verbatim>\<open>Number(response.page || params.page || 1)\<close>): for
  the same request, a paginated envelope that reports index 2 gives \<^verbatim>\<open>page\<close> 3, and a
  \<^verbatim>\<open>projects\<close> reply that reports index 2 gives \<^verbatim>\<open>page\<close> 2.
\<close>

theorem modtale_projects_reply_page_not_decoded:
  "map_of (req_query (mt_searchRequest sample_page3)) ''page'' = Some ''2''
   \<and> map_of (req_query (mt_searchRequest sample_page3)) ''size'' = Some ''10''
   \<and> jsget sample_modtale_page ''number'' = JNum 2
   \<and> (case snd (mt_searchProjects sample_modtale_state (sample_upstream sample_modtale_page)
                  sample_page3) of
        Inr r \<Rightarrow> jsget r ''page'' = JNum 3
      | Inl e \<Rightarrow> False)
   \<and> jsget sample_modtale_projects_reply ''page'' = JNum 2
   \<and> (case snd (mt_searchProjects sample_modtale_state
                  (sample_upstream sample_modtale_projects_reply) sample_page3) of
        Inr r \<Rightarrow> jsget r ''page'' = JNum 2 \<and> jsget r ''page'' \<noteq> JNum 3
      | Inl e \<Rightarrow> False)"
  by code_simp

lemma mt_searchResult_unrecognized:
  assumes "\<not> isArray response" and "\<not> hasKey ''content'' response"
    and "\<not> hasKey ''projects'' response"
  shows "mt_searchResult params response =
     ([''[ModtaleProvider] Unexpected response format''],
      Inr (emptyResponse (JNum (num_or (sp_page params) 1))
             (JNum (num_or (sp_pageSize params) 50)) mt_id))"
  unfolding mt_searchResult_def by (simp only: assms simp_thms if_False)

lemma cf_searchResult_no_data:
  assumes "\<not> isArray (jsget response ''data'')"
  shows "cf_searchResult st params response = Inl TypeError"
proof (cases "nullish response")
  case True
  then show ?thesis
    by (simp add: cf_searchResult_def getprop_def bindE_def)
next
  case False
  moreover have "arrayMap (cf_transformMod st) (jsget response ''data'') = Inl TypeError"
    using assms by (cases "jsget response ''data''") (simp_all add: arrayMap_def)
  ultimately show ?thesis
    by (simp add: cf_searchResult_def getprop_def bindE_def)
qed

text \<open>
  Claim C7, as the code has it. When the configured Modtale adapter receives a reply
  that is none of the shapes it probes for (no array, no \<^verbatim>\<open>content\<close> key, no \<^verbatim>\<open>projects\<close>
  key), \<^verbatim>\<open>searchProjects\<close> logs a warning and returns the empty response with
  \<^verbatim>\<open>params.page || 1\<close>, \<^verbatim>\<open>params.pageSize || 50\<close> and its provider id. The CurseForge
  adapter probes nothing: once its game id is known, a reply whose \<^verbatim>\<open>data\<close> is not an
  array makes \<^verbatim>\<open>searchProjects\<close> reject with a \<^verbatim>\<open>TypeError\<close>, without a warning.
\<close>

theorem unrecognized_search_reply:
  "(mt_isConfigured st \<and> up (mt_searchRequest params) = Inr response
      \<and> \<not> isArray response \<and> \<not> hasKey ''content'' response \<and> \<not> hasKey ''projects'' response \<longrightarrow>
    mt_searchProjects st up params =
      ([''[ModtaleProvider] Unexpected response format''],
       Inr (JObj [(''projects'', JArr []),
                  (''total'', JNum 0),
                  (''page'', JNum (num_or (sp_page params) 1)),
                  (''pageSize'', JNum (num_or (sp_pageSize params) 50)),
                  (''hasMore'', JBool False),
                  (''providerId'', JStr ''modtale'')])))
   \<and> (cf_isConfigured st' \<and> truthy (cf_hytaleGameId st')
      \<and> up' (cf_searchRequest st' params') = Inr response'
      \<and> \<not> isArray (jsget response' ''data'') \<longrightarrow>
    cf_searchProjects up' st' params' = (st', [], Inl TypeError))"
proof (intro conjI impI)
  assume a: "mt_isConfigured st \<and> up (mt_searchRequest params) = Inr response
      \<and> \<not> isArray response \<and> \<not> hasKey ''content'' response \<and> \<not> hasKey ''projects'' response"
  then have "mt_searchProjects st up params = mt_searchResult params response"
    by (clarsimp simp: mt_searchProjects_def mt_request_def)
  with a show "mt_searchProjects st up params =
      ([''[ModtaleProvider] Unexpected response format''],
       Inr (JObj [(''projects'', JArr []),
                  (''total'', JNum 0),
                  (''page'', JNum (num_or (sp_page params) 1)),
                  (''pageSize'', JNum (num_or (sp_pageSize params) 50)),
                  (''hasMore'', JBool False),
                  (''providerId'', JStr ''modtale'')]))"
    by (simp add: mt_searchResult_unrecognized emptyResponse_def mt_id_def)
next
  assume a: "cf_isConfigured st' \<and> truthy (cf_hytaleGameId st')
      \<and> up' (cf_searchRequest st' params') = Inr response'
      \<and> \<not> isArray (jsget response' ''data'')"
  then have "cf_searchResult st' params' response' = Inl TypeError"
    by (simp add: cf_searchResult_no_data)
  with a show "cf_searchProjects up' st' params' = (st', [], Inl TypeError)"
    by (clarsimp simp: cf_searchProjects_def cf_request_def bindE_def)
qed

theorem unrecognized_search_reply_witness:
  "mt_searchProjects sample_modtale_state (sample_upstream (JObj [(''items'', JArr [])]))
     sample_params =
     ([''[ModtaleProvider] Unexpected response format''],
      Inr (JObj [(''projects'', JArr []), (''total'', JNum 0), (''page'', JNum 2),
                 (''pageSize'', JNum 50), (''hasMore'', JBool False),
                 (''providerId'', JStr ''modtale'')]))
   \<and> cf_searchProjects (sample_upstream (JObj [(''items'', JArr [])])) sample_curseforge_state
       sample_params = (sample_curseforge_state, [], Inl TypeError)"
  using unrecognized_search_reply
    [of sample_modtale_state "sample_upstream (JObj [(''items'', JArr [])])" sample_params
        "JObj [(''items'', JArr [])]"
        sample_curseforge_state "sample_upstream (JObj [(''items'', JArr [])])" sample_params
        "JObj [(''items'', JArr [])]"]
  by (simp add: mt_isConfigured_def cf_isConfigured_def sample_modtale_state_def
      sample_curseforge_state_def sample_upstream_def sample_params_def num_or_def)

text \<open>
  Claim C7 as stated fails for the CurseForge adapter: on the reply \<^verbatim>\<open>{}\<close> its
  \<^verbatim>\<open>searchProjects\<close> rejects.
\<close>

theorem curseforge_unrecognized_reply_counterexample:
  "snd (snd (cf_searchProjects (sample_upstream (JObj [])) sample_curseforge_state sample_page3)) =
     Inl TypeError"
  by (simp add: cf_searchProjects_def cf_request_def cf_isConfigured_def sample_upstream_def
      sample_curseforge_state_def bindE_def cf_searchResult_no_data)

end
